theory Spec2Isabelle
  imports Main
begin

section \<open>JavaScript values and strings\<close>

text \<open>
  The server is an Express application (\<^verbatim>\<open>index.js\<close>) that exists in two variants:
  one keeps the provider token in a bare \<^verbatim>\<open>gh_token\<close> cookie, the other in a
  server-side session. Both are embedded here, function by function.

  A \<open>string\<close> stands for a JavaScript string of ASCII characters, one \<open>char\<close> for
  each (GitHub user names, paths and tokens are ASCII), so that its length, its UTF-8
  bytes and its UTF-16 code units coincide. \<open>toLowerCase\<close> and \<open>trim\<close> leave every
  \<open>char\<close> above 127 alone. JSON numbers are integers, and the keys of an object are
  distinct.
\<close>

datatype jsval =
    Undefined
  | Null
  | Bool bool
  | Num int
  | Str string
  | Arr "jsval list"
  | Obj "(string \<times> jsval) list"

text \<open>JavaScript truthiness, as \<^verbatim>\<open>if (x)\<close>, \<^verbatim>\<open>!x\<close> and \<^verbatim>\<open>x || y\<close> test it.\<close>

fun truthy :: "jsval \<Rightarrow> bool" where
  "truthy Undefined = False"
| "truthy Null = False"
| "truthy (Bool b) = b"
| "truthy (Num n) = (n \<noteq> 0)"
| "truthy (Str s) = (s \<noteq> [])"
| "truthy (Arr xs) = True"
| "truthy (Obj kvs) = True"

text \<open>An optional string field: \<open>None\<close> is \<^verbatim>\<open>undefined\<close>.\<close>

definition truthy_str :: "string option \<Rightarrow> bool" where
  "truthy_str s = (case s of None \<Rightarrow> False | Some x \<Rightarrow> x \<noteq> [])"

text \<open>\<^verbatim>\<open>a || b\<close> on optional strings.\<close>

definition or_else :: "string option \<Rightarrow> string option \<Rightarrow> string option" where
  "or_else a b = (if truthy_str a then a else b)"

text \<open>\<^verbatim>\<open>a || "lit"\<close>: the result is a string.\<close>

definition or_lit :: "string option \<Rightarrow> string \<Rightarrow> string" where
  "or_lit a d = (case a of None \<Rightarrow> d | Some x \<Rightarrow> if x \<noteq> [] then x else d)"

definition jsopt :: "string option \<Rightarrow> jsval" where
  "jsopt s = (case s of None \<Rightarrow> Undefined | Some x \<Rightarrow> Str x)"

definition toLowerCase_char :: "char \<Rightarrow> char" where
  "toLowerCase_char c =
     (case map_of (zip ''ABCDEFGHIJKLMNOPQRSTUVWXYZ'' ''abcdefghijklmnopqrstuvwxyz'') c of
        None \<Rightarrow> c
      | Some l \<Rightarrow> l)"

definition toLowerCase :: "string \<Rightarrow> string" where
  "toLowerCase s = map toLowerCase_char s"

definition isWhiteSpace :: "char \<Rightarrow> bool" where
  "isWhiteSpace c = ((of_char c :: nat) \<in> {9, 10, 11, 12, 13, 32})"

definition trim :: "string \<Rightarrow> string" where
  "trim s = rev (dropWhile isWhiteSpace (rev (dropWhile isWhiteSpace s)))"

text \<open>
  \<^verbatim>\<open>s.split(",")\<close>: the pieces between the separators, empty pieces included; the
  second argument is the piece being read, reversed.
\<close>

fun split_at :: "char \<Rightarrow> string \<Rightarrow> string \<Rightarrow> string list" where
  "split_at sep cur [] = [rev cur]"
| "split_at sep cur (c # cs) =
     (if c = sep then rev cur # split_at sep [] cs else split_at sep (c # cur) cs)"

definition split :: "char \<Rightarrow> string \<Rightarrow> string list" where
  "split sep s = split_at sep [] s"

section \<open>Configuration and the allow-list\<close>

datatype variant = CookieOnly | SessionBacked

record config =
  ALLOWED_USERS :: "string option"
  APP_NAME :: "string option"
  NODE_ENV :: "string option"

text \<open>
  \<^verbatim>\<open>ALLOWED_USERS.split(",").map((s) => s.trim()).filter(Boolean)\<close>
\<close>

definition parseAllowedUsers :: "string \<Rightarrow> string list" where
  "parseAllowedUsers s = filter (\<lambda>e. e \<noteq> []) (map trim (split (CHR '','') s))"

text \<open>
  The module-level constant \<^verbatim>\<open>allowedUsers\<close>. The cookie variant defaults an unset
  \<^verbatim>\<open>ALLOWED_USERS\<close> to the empty string. The session variant's default,
  \<^verbatim>\<open>ALLOWED_USERS = ALLOWED_USERS || []\<close>, reads the binding it is initialising, so
  with the variable unset the module throws a ReferenceError while loading (\<open>None\<close>).
\<close>

definition allowedUsers :: "variant \<Rightarrow> config \<Rightarrow> string list option" where
  "allowedUsers v cfg =
     (case ALLOWED_USERS cfg of
        Some s \<Rightarrow> Some (parseAllowedUsers s)
      | None \<Rightarrow> (case v of CookieOnly \<Rightarrow> Some (parseAllowedUsers []) | SessionBacked \<Rightarrow> None))"

section \<open>The passport verify callback\<close>

record profile =
  pid :: jsval
  username :: "string option"
  login :: "string option"
  displayName :: "string option"
  photos :: jsval
  token :: "string option"

text \<open>
  \<^verbatim>\<open>(profile.username || profile.login || profile.displayName || "").toLowerCase()\<close>
\<close>

definition profile_name :: "profile \<Rightarrow> string" where
  "profile_name p = or_lit (or_else (or_else (username p) (login p)) (displayName p)) []"

text \<open>
  The function given to \<^verbatim>\<open>GitHubStrategy\<close>, the same in both variants.
  \<open>None\<close> is \<^verbatim>\<open>done(null, false, ...)\<close>, \<open>Some p\<close> is \<^verbatim>\<open>done(null, profile)\<close>.
\<close>

definition verify :: "string list \<Rightarrow> string \<Rightarrow> profile \<Rightarrow> profile option" where
  "verify allowed accessToken profile0 =
     (let p = profile0\<lparr>token := Some accessToken\<rparr> in
      if length allowed > 0 then
        (let uname = toLowerCase (profile_name p);
             isAllowed = list_ex (\<lambda>u. toLowerCase u = uname) allowed
         in if \<not> isAllowed then None else Some p)
      else Some p)"

section \<open>Objects, properties and encodings\<close>

text \<open>
  \<^verbatim>\<open>obj[k] = v\<close> on the property list of an object: an existing key keeps its place,
  a new one goes last. It also serves for the spread \<^verbatim>\<open>{...q, k: v}\<close>.
\<close>

fun assign :: "string \<Rightarrow> jsval \<Rightarrow> (string \<times> jsval) list \<Rightarrow> (string \<times> jsval) list" where
  "assign k v [] = [(k, v)]"
| "assign k v ((k', v') # kvs) =
     (if k' = k then (k, v) # kvs else (k', v') # assign k v kvs)"

text \<open>
  Reading a property that is no built-in of arrays or strings (the source reads
  \<^verbatim>\<open>sha\<close>, \<^verbatim>\<open>id\<close>, \<^verbatim>\<open>login\<close>, \<^verbatim>\<open>name\<close>, \<^verbatim>\<open>avatar_url\<close>):
  \<open>None\<close> is the TypeError of reading from \<^verbatim>\<open>null\<close> or \<^verbatim>\<open>undefined\<close>.
\<close>

fun get_prop :: "jsval \<Rightarrow> string \<Rightarrow> jsval option" where
  "get_prop Undefined k = None"
| "get_prop Null k = None"
| "get_prop (Obj kvs) k = Some (case map_of kvs k of None \<Rightarrow> Undefined | Some v \<Rightarrow> v)"
| "get_prop v k = Some Undefined"

text \<open>A destructuring default, \<^verbatim>\<open>{ message = "..." } = req.body\<close>: it replaces \<^verbatim>\<open>undefined\<close> only.\<close>

definition default_to :: "jsval \<Rightarrow> jsval \<Rightarrow> jsval" where
  "default_to d v = (if v = Undefined then d else v)"

definition hex_digit :: "nat \<Rightarrow> char" where
  "hex_digit n = ''0123456789ABCDEF'' ! n"

definition uri_unreserved :: "char \<Rightarrow> bool" where
  "uri_unreserved c =
     (c \<in> set ''ABCDEFGHIJKLMNOPQRSTUVWXYZabcdefghijklmnopqrstuvwxyz0123456789-_.!~*'()'')"

definition encodeURIComponent :: "string \<Rightarrow> string" where
  "encodeURIComponent s =
     concat (map (\<lambda>c. if uri_unreserved c then [c]
                        else [CHR ''%'', hex_digit (of_char c div 16), hex_digit (of_char c mod 16)]) s)"

definition b64_digit :: "nat \<Rightarrow> char" where
  "b64_digit n =
     (''ABCDEFGHIJKLMNOPQRSTUVWXYZabcdefghijklmnopqrstuvwxyz0123456789+/'') ! n"

fun b64_bytes :: "nat list \<Rightarrow> string" where
  "b64_bytes [] = []"
| "b64_bytes [a] = [b64_digit (a div 4), b64_digit ((a mod 4) * 16), CHR ''='', CHR ''='']"
| "b64_bytes [a, b] =
     [b64_digit (a div 4), b64_digit ((a mod 4) * 16 + b div 16),
      b64_digit ((b mod 16) * 4), CHR ''='']"
| "b64_bytes (a # b # c # r) =
     [b64_digit (a div 4), b64_digit ((a mod 4) * 16 + b div 16),
      b64_digit ((b mod 16) * 4 + c div 64), b64_digit (c mod 64)] @ b64_bytes r"

text \<open>\<^verbatim>\<open>Buffer.from(content, "utf8").toString("base64")\<close>\<close>

definition base64 :: "string \<Rightarrow> string" where
  "base64 s = b64_bytes (map of_char s)"

section \<open>The upstream client\<close>

record axios_opts =
  http_method :: string
  url :: string
  headers :: "(string \<times> string) list"
  data :: jsval
  params :: jsval

text \<open>
  What a \<^verbatim>\<open>catch (err)\<close> of the source reads from the error: \<^verbatim>\<open>err.response\<close>
  (status and data; \<open>None\<close> when no HTTP response exists) and \<^verbatim>\<open>err.message\<close>.
\<close>

record js_error =
  response :: "(nat \<times> jsval) option"
  message :: string

text \<open>
  \<^verbatim>\<open>axios(opts)\<close> is the world outside: a transition of the upstream's state that
  either rejects (\<open>Inl\<close>, any non-2xx status or no response) or resolves with the
  parsed body (\<open>Inr\<close>). Handlers return the calls they made, in order, with the answers.
\<close>

type_synonym 's axios = "axios_opts \<Rightarrow> 's \<Rightarrow> (js_error + jsval) \<times> 's"

type_synonym call = "axios_opts \<times> (js_error + jsval)"

text \<open>The \<^verbatim>\<open>opts\<close> object \<^verbatim>\<open>githubRequest\<close> builds.\<close>

definition request_opts ::
  "config \<Rightarrow> string \<Rightarrow> string \<Rightarrow> string \<Rightarrow> jsval \<Rightarrow> jsval \<Rightarrow> axios_opts" where
  "request_opts cfg tok meth path dat prms =
     \<lparr>http_method = meth,
      url = ''https://api.github.com'' @ path,
      headers = [(''Authorization'', ''token '' @ tok),
                 (''User-Agent'', or_lit (APP_NAME cfg) ''github-server''),
                 (''Accept'', ''application/vnd.github.v3+json'')],
      data = dat, params = prms\<rparr>"

definition githubRequest ::
  "config \<Rightarrow> 's axios \<Rightarrow> string \<Rightarrow> string \<Rightarrow> string \<Rightarrow> jsval \<Rightarrow> jsval \<Rightarrow> 's
     \<Rightarrow> (js_error + jsval) \<times> call list \<times> 's" where
  "githubRequest cfg axios tok meth path dat prms s =
     (let opts = request_opts cfg tok meth path dat prms;
          r = axios opts s
      in (fst r, [(opts, fst r)], snd r))"

section \<open>Responses\<close>

record cookie_options =
  httpOnly :: bool
  secure :: bool
  sameSite :: string
  maxAge :: nat

datatype cookie_op = SetCookie string string cookie_options | ClearCookie string

text \<open>
  \<open>Json st b\<close> is \<^verbatim>\<open>res.status(st).json(b)\<close>, \<open>NextError\<close> is \<^verbatim>\<open>next(err)\<close> or an
  exception that escapes the handler (Express answers 500), \<open>ToProvider\<close> is
  passport's redirect to the provider. \<open>Unmodelled\<close> marks the one place where the
  embedding stops: a page body whose \<^verbatim>\<open>length\<close> JavaScript would have to
  convert from a string or an object before comparing.
\<close>

datatype answer =
    Json nat jsval
  | Redirect string
  | NextError string
  | ToProvider
  | Unmodelled

record reply =
  answer :: answer
  cookie_ops :: "cookie_op list"

definition plain :: "answer \<Rightarrow> reply" where
  "plain a = \<lparr>answer = a, cookie_ops = []\<rparr>"

definition unauthorized :: answer where
  "unauthorized = Json 401 (Obj [(''error'', Str ''Unauthorized. Please log in via /auth/github'')])"

text \<open>
  The \<^verbatim>\<open>catch\<close> clause every route ends with:
  \<^verbatim>\<open>res.status(err.response?.status || 500).json({ error: err.response?.data || err.message })\<close>
\<close>

definition relay_error :: "js_error \<Rightarrow> answer" where
  "relay_error err =
     Json (case response err of None \<Rightarrow> 500 | Some (st, d) \<Rightarrow> if st \<noteq> 0 then st else 500)
          (Obj [(''error'',
                 case response err of
                   None \<Rightarrow> Str (message err)
                 | Some (st, d) \<Rightarrow> if truthy d then d else Str (message err))])"

definition type_error :: "string \<Rightarrow> js_error" where
  "type_error m = \<lparr>response = None, message = m\<rparr>"

section \<open>Requests, sessions and the auth middleware\<close>

text \<open>
  The fields of \<^verbatim>\<open>req.body\<close> the write routes destructure. \<open>path\<close> and \<open>content\<close>
  go through string functions (\<^verbatim>\<open>encodeURIComponent\<close>, \<^verbatim>\<open>Buffer.from\<close>) and are
  strings when present; the others are passed on as they are. An absent field is
  \<open>None\<close> or \<open>Undefined\<close>; a request without a body has the empty object as
  \<^verbatim>\<open>req.body\<close>, every field absent.
\<close>

record req_body =
  body_path :: "string option"
  body_content :: "string option"
  body_message :: jsval
  body_branch :: jsval
  body_sha :: jsval
  body_committer :: jsval
  body_push :: jsval

record request =
  cookies :: "string \<rightharpoonup> string"
  query :: "(string \<times> jsval) list"
  body :: req_body

text \<open>
  \<^verbatim>\<open>req.user\<close>: in the cookie variant \<^verbatim>\<open>{ token }\<close>, in the session variant the object
  \<^verbatim>\<open>serializeUser\<close> stored in the session.
\<close>

record req_user =
  user_id :: jsval
  user_username :: "string option"
  user_displayName :: "string option"
  user_photos :: jsval
  user_token :: "string option"

text \<open>The session store of express-session, by the value of the \<^verbatim>\<open>gh.sid\<close> cookie.\<close>

type_synonym sessions = "string \<rightharpoonup> req_user"

definition serializeUser :: "profile \<Rightarrow> req_user" where
  "serializeUser u =
     \<lparr>user_id = pid u,
      user_username = or_else (or_else (username u) (login u)) (displayName u),
      user_displayName = displayName u,
      user_photos = photos u,
      user_token = token u\<rparr>"

text \<open>A template literal prints \<^verbatim>\<open>undefined\<close> as the word.\<close>

definition token_text :: "req_user \<Rightarrow> string" where
  "token_text u = (case user_token u of None \<Rightarrow> ''undefined'' | Some t \<Rightarrow> t)"

text \<open>
  Cookie variant: \<open>Inl\<close> is the 401 answer, \<open>Inr\<close> is \<^verbatim>\<open>req.user\<close> on \<^verbatim>\<open>next()\<close>,
  the object \<^verbatim>\<open>{ token }\<close>.
\<close>

definition token_user :: "string \<Rightarrow> req_user" where
  "token_user t =
     \<lparr>user_id = Undefined, user_username = None, user_displayName = None,
      user_photos = Undefined, user_token = Some t\<rparr>"

definition ensureAuthenticated_cookie :: "request \<Rightarrow> answer + req_user" where
  "ensureAuthenticated_cookie req =
     (case cookies req ''gh_token'' of
        None \<Rightarrow> Inl unauthorized
      | Some t \<Rightarrow> if t = [] then Inl unauthorized else Inr (token_user t))"

text \<open>
  Session variant: \<^verbatim>\<open>passport.session()\<close> has set \<^verbatim>\<open>req.user\<close> from the stored
  session, and \<^verbatim>\<open>req.isAuthenticated()\<close> tests that it is there.
\<close>

definition session_user :: "sessions \<Rightarrow> request \<Rightarrow> req_user option" where
  "session_user ss req = (case cookies req ''gh.sid'' of None \<Rightarrow> None | Some sid \<Rightarrow> ss sid)"

definition ensureAuthenticated_session :: "sessions \<Rightarrow> request \<Rightarrow> answer + req_user" where
  "ensureAuthenticated_session ss req =
     (case session_user ss req of
        None \<Rightarrow> Inl unauthorized
      | Some u \<Rightarrow> if truthy_str (user_token u) then Inr u else Inl unauthorized)"

definition ensureAuthenticated :: "variant \<Rightarrow> sessions \<Rightarrow> request \<Rightarrow> answer + req_user" where
  "ensureAuthenticated v ss req =
     (case v of CookieOnly \<Rightarrow> ensureAuthenticated_cookie req
              | SessionBacked \<Rightarrow> ensureAuthenticated_session ss req)"

section \<open>The OAuth callback and logout\<close>

text \<open>
  What \<^verbatim>\<open>passport.authenticate("github", cb)\<close> can come to on the callback URL: no
  code in the query (passport redirects to the provider and \<open>cb\<close> is not called), the
  user denied access (\<open>cb(null, false)\<close>), the exchange or the profile request failed
  (\<open>cb(err)\<close>), or the provider gave a token and a profile, on which the verify
  callback decides.
\<close>

datatype exchange =
    NoCode
  | AccessDenied
  | ExchangeFailed string
  | Exchanged string profile

definition token_cookie_options :: "config \<Rightarrow> cookie_options" where
  "token_cookie_options cfg =
     \<lparr>httpOnly = True, secure = (NODE_ENV cfg = Some ''production''),
      sameSite = ''lax'', maxAge = 24 * 60 * 60 * 1000\<rparr>"

text \<open>\<^verbatim>\<open>res.cookie("gh_token", user.token, ...)\<close>; Express writes \<^verbatim>\<open>String(value)\<close>.\<close>

definition set_token_cookie :: "config \<Rightarrow> profile \<Rightarrow> cookie_op" where
  "set_token_cookie cfg u =
     SetCookie ''gh_token'' (case token u of None \<Rightarrow> ''undefined'' | Some t \<Rightarrow> t)
       (token_cookie_options cfg)"

text \<open>
  \<^verbatim>\<open>GET /auth/github/callback\<close>. The session variant calls \<^verbatim>\<open>req.logIn\<close> first, which
  stores the serialized user under the request's session id \<open>sid\<close> or fails with an
  error (\<open>login_err\<close>, from the session store).
\<close>

definition auth_callback ::
  "variant \<Rightarrow> config \<Rightarrow> string list \<Rightarrow> exchange \<Rightarrow> string \<Rightarrow> string option \<Rightarrow> sessions
     \<Rightarrow> reply \<times> sessions" where
  "auth_callback v cfg allowed ex sid login_err ss =
     (case ex of
        NoCode \<Rightarrow> (plain ToProvider, ss)
      | ExchangeFailed e \<Rightarrow> (plain (NextError e), ss)
      | AccessDenied \<Rightarrow> (plain (Redirect ''/unauthorized.html''), ss)
      | Exchanged accessToken profile0 \<Rightarrow>
          (case verify allowed accessToken profile0 of
             None \<Rightarrow> (plain (Redirect ''/unauthorized.html''), ss)
           | Some u \<Rightarrow>
               (case v of
                  CookieOnly \<Rightarrow>
                    (\<lparr>answer = Redirect ''/'', cookie_ops = [set_token_cookie cfg u]\<rparr>, ss)
                | SessionBacked \<Rightarrow>
                    (case login_err of
                       Some e \<Rightarrow> (plain (NextError e), ss)
                     | None \<Rightarrow>
                         (\<lparr>answer = Redirect ''/'', cookie_ops = [set_token_cookie cfg u]\<rparr>,
                          ss(sid \<mapsto> serializeUser u))))))"

text \<open>
  \<^verbatim>\<open>POST /logout\<close>. The cookie variant only tells the browser to drop the cookie. The
  session variant calls \<^verbatim>\<open>req.logout?.()\<close> with no callback: passport from 0.6 on
  throws there (\<open>logout_needs_callback\<close>), earlier versions return; then it destroys
  the session of the request.
\<close>

definition logout :: "variant \<Rightarrow> bool \<Rightarrow> request \<Rightarrow> sessions \<Rightarrow> reply \<times> sessions" where
  "logout v logout_needs_callback req ss =
     (case v of
        CookieOnly \<Rightarrow>
          (\<lparr>answer = Json 200 (Obj [(''message'', Str ''Logged out'')]),
            cookie_ops = [ClearCookie ''gh_token'']\<rparr>, ss)
      | SessionBacked \<Rightarrow>
          if logout_needs_callback
          then (plain (NextError ''req#logout requires a callback function''), ss)
          else (\<lparr>answer = Json 200 (Obj [(''ok'', Bool True)]),
                 cookie_ops = [ClearCookie ''gh_token'']\<rparr>,
                (case cookies req ''gh.sid'' of None \<Rightarrow> ss | Some sid \<Rightarrow> ss(sid := None))))"

section \<open>Route handlers\<close>

text \<open>
  The routes of the application, with their path parameters (\<open>owner\<close>, \<open>repo\<close>, then
  \<open>path\<close> or \<open>sha\<close>). The login redirect and the callback are \<open>auth_callback\<close> above.
\<close>

datatype route =
    Logout
  | AdminAllowedUsers
  | ApiMe
  | ApiRepos
  | Branches string string
  | ContentsRoot string string
  | ContentsPath string string string
  | Commits string string
  | GitTree string string string
  | SpecUpdate string string
  | PutContents string string string

text \<open>The routes registered with \<^verbatim>\<open>ensureAuthenticated\<close>: all of \<^verbatim>\<open>/api/*\<close>.\<close>

fun protected :: "route \<Rightarrow> bool" where
  "protected Logout = False"
| "protected AdminAllowedUsers = False"
| "protected r = True"

text \<open>
  The body of the plain read routes: one upstream \<^verbatim>\<open>GET\<close> with the caller's query,
  \<^verbatim>\<open>res.json(data)\<close> or the \<^verbatim>\<open>catch\<close> clause.
\<close>

definition proxy_get ::
  "config \<Rightarrow> 's axios \<Rightarrow> req_user \<Rightarrow> string \<Rightarrow> request \<Rightarrow> 's \<Rightarrow> answer \<times> call list \<times> 's" where
  "proxy_get cfg axios u path req s =
     (let r = githubRequest cfg axios (token_text u) ''GET'' path (Obj []) (Obj (query req)) s
      in (case fst r of Inl err \<Rightarrow> relay_error err | Inr d \<Rightarrow> Json 200 d, snd r))"

text \<open>\<^verbatim>\<open>GET /api/me\<close>, cookie variant: asks the provider and reshapes the answer.\<close>

definition api_me_cookie ::
  "config \<Rightarrow> 's axios \<Rightarrow> req_user \<Rightarrow> 's \<Rightarrow> answer \<times> call list \<times> 's" where
  "api_me_cookie cfg axios u s =
     (let r = githubRequest cfg axios (token_text u) ''GET'' ''/user'' (Obj []) (Obj []) s
      in (case fst r of
            Inl err \<Rightarrow> relay_error err
          | Inr me \<Rightarrow>
              (case (get_prop me ''id'', get_prop me ''login'', get_prop me ''name'',
                     get_prop me ''avatar_url'') of
                 (Some i, Some l, Some n, Some a) \<Rightarrow>
                   Json 200 (Obj [(''id'', i), (''username'', l), (''displayName'', n),
                                  (''photos'', Arr [Obj [(''value'', a)]])])
               | _ \<Rightarrow>
                   relay_error (type_error
                     (''Cannot destructure property 'id' of 'me' as it is '' @
                      (if me = Null then ''null.'' else ''undefined.'')))),
          snd r))"

text \<open>\<^verbatim>\<open>GET /api/me\<close>, session variant: answers from the session, no upstream call.\<close>

definition api_me_session :: "req_user \<Rightarrow> answer" where
  "api_me_session u =
     Json 200 (Obj [(''id'', user_id u), (''username'', jsopt (user_username u)),
                    (''displayName'', jsopt (user_displayName u)),
                    (''photos'', user_photos u)])"

subsection \<open>The pagination loop\<close>

definition per_page :: int where
  "per_page = 100"

text \<open>\<^verbatim>\<open>allRepos.concat(repos)\<close>: an array is spread, any other value is appended.\<close>

definition concat_js :: "jsval list \<Rightarrow> jsval \<Rightarrow> jsval list" where
  "concat_js acc v = (case v of Arr xs \<Rightarrow> acc @ xs | _ \<Rightarrow> acc @ [v])"

text \<open>
  \<^verbatim>\<open>repos.length < per_page\<close>. Reading \<^verbatim>\<open>length\<close> of \<^verbatim>\<open>null\<close> throws; a number or
  a boolean has none and \<^verbatim>\<open>undefined < n\<close> is false; an object has the one it
  carries, if any.
\<close>

datatype comparison = Less | NotLess | Throws | NoModel

fun length_less :: "jsval \<Rightarrow> int \<Rightarrow> comparison" where
  "length_less Undefined n = Throws"
| "length_less Null n = Throws"
| "length_less (Bool b) n = NotLess"
| "length_less (Num k) n = NotLess"
| "length_less (Str s) n = (if int (length s) < n then Less else NotLess)"
| "length_less (Arr xs) n = (if int (length xs) < n then Less else NotLess)"
| "length_less (Obj kvs) n =
     (case map_of kvs ''length'' of
        None \<Rightarrow> NotLess
      | Some Undefined \<Rightarrow> NotLess
      | Some Null \<Rightarrow> (if 0 < n then Less else NotLess)
      | Some (Bool b) \<Rightarrow> (if (if b then 1 else 0) < n then Less else NotLess)
      | Some (Num k) \<Rightarrow> (if k < n then Less else NotLess)
      | Some _ \<Rightarrow> NoModel)"

text \<open>
  The \<^verbatim>\<open>while (more)\<close> loop of \<^verbatim>\<open>GET /api/repos\<close> (cookie variant), with
  \<open>allRepos\<close>, \<open>page\<close> and the calls made so far as its state. The upstream decides
  whether it ends: \<open>None\<close> is a loop that never answers.
\<close>

partial_function (option) repos_loop ::
  "config \<Rightarrow> 's axios \<Rightarrow> req_user \<Rightarrow> request \<Rightarrow> jsval list \<Rightarrow> nat \<Rightarrow> call list \<Rightarrow> 's
     \<Rightarrow> (answer \<times> call list \<times> 's) option" where
  "repos_loop cfg axios u req allRepos page calls s =
     (let prms = Obj (assign ''page'' (Num (int page))
                        (assign ''per_page'' (Num per_page) (query req)));
          r = githubRequest cfg axios (token_text u) ''GET'' ''/user/repos'' (Obj []) prms s;
          calls' = calls @ fst (snd r);
          s' = snd (snd r)
      in if isl (fst r) then Some (relay_error (projl (fst r)), calls', s')
         else
           (let repos = projr (fst r);
                allRepos' = concat_js allRepos repos;
                c = length_less repos per_page
            in if c = Throws then
                 Some (relay_error (type_error
                         (''Cannot read properties of '' @
                          (if repos = Null then ''null'' else ''undefined'') @
                          '' (reading 'length')'')), calls', s')
               else if c = NoModel then Some (Unmodelled, calls', s')
               else if c = Less then Some (Json 200 (Arr allRepos'), calls', s')
               else repos_loop cfg axios u req allRepos' (page + 1) calls' s'))"

text \<open>The parameters of the loop's call for a page: \<^verbatim>\<open>{ ...req.query, per_page, page }\<close>.\<close>

definition page_opts :: "config \<Rightarrow> req_user \<Rightarrow> request \<Rightarrow> nat \<Rightarrow> axios_opts" where
  "page_opts cfg u req page =
     request_opts cfg (token_text u) ''GET'' ''/user/repos'' (Obj [])
       (Obj (assign ''page'' (Num (int page)) (assign ''per_page'' (Num per_page) (query req))))"

definition api_repos_cookie ::
  "config \<Rightarrow> 's axios \<Rightarrow> req_user \<Rightarrow> request \<Rightarrow> 's \<Rightarrow> (answer \<times> call list \<times> 's) option" where
  "api_repos_cookie cfg axios u req s = repos_loop cfg axios u req [] 1 [] s"

subsection \<open>The write routes\<close>

text \<open>
  \<^verbatim>\<open>if (branch) payload.branch = branch;\<close> and its like: the property is added to
  the payload when the value is truthy.
\<close>

definition when_truthy :: "string \<Rightarrow> jsval \<Rightarrow> (string \<times> jsval) list" where
  "when_truthy k v = (if truthy v then [(k, v)] else [])"

definition contents_path :: "string \<Rightarrow> string \<Rightarrow> string \<Rightarrow> string" where
  "contents_path owner repo path = ''/repos/'' @ owner @ ''/'' @ repo @ ''/contents/'' @ path"

text \<open>
  \<^verbatim>\<open>POST /api/repos/:owner/:repo/spec/update\<close>, the same in both variants. The inner
  \<^verbatim>\<open>try { ... existingSha = existing.sha } catch (e) {}\<close> leaves \<open>existingSha\<close> at
  \<^verbatim>\<open>null\<close> whatever goes wrong.
\<close>

definition existing_sha :: "js_error + jsval \<Rightarrow> jsval" where
  "existing_sha r =
     (case r of
        Inl e \<Rightarrow> Null
      | Inr existing \<Rightarrow> (case get_prop existing ''sha'' of None \<Rightarrow> Null | Some v \<Rightarrow> v))"

definition spec_update ::
  "config \<Rightarrow> 's axios \<Rightarrow> req_user \<Rightarrow> string \<Rightarrow> string \<Rightarrow> request \<Rightarrow> 's
     \<Rightarrow> answer \<times> call list \<times> 's" where
  "spec_update cfg axios u owner repo req s =
     (let path = (case body_path (body req) of None \<Rightarrow> ''spec.yaml'' | Some p \<Rightarrow> p);
          msg = default_to (Str ''Update spec via API'') (body_message (body req));
          branch = body_branch (body req)
      in case body_content (body req) of
           None \<Rightarrow> (Json 400 (Obj [(''error'', Str ''content is required'')]), [], s)
         | Some content \<Rightarrow>
             if content = [] then (Json 400 (Obj [(''error'', Str ''content is required'')]), [], s)
             else
               (let target = contents_path owner repo (encodeURIComponent path);
                    probe = githubRequest cfg axios (token_text u) ''GET'' target (Obj [])
                              (Obj [(''ref'', branch)]) s;
                    existingSha = existing_sha (fst probe);
                    payload = Obj ([(''message'', msg), (''content'', Str (base64 content))]
                                   @ when_truthy ''branch'' branch
                                   @ when_truthy ''sha'' existingSha);
                    w = githubRequest cfg axios (token_text u) ''PUT'' target payload (Obj [])
                          (snd (snd probe))
                in (case fst w of Inl err \<Rightarrow> relay_error err | Inr d \<Rightarrow> Json 200 d,
                    fst (snd probe) @ fst (snd w), snd (snd w))))"

text \<open>
  \<^verbatim>\<open>data.push = { ... }\<close> on the upstream's answer (cookie variant, when \<open>push\<close> is
  truthy): a TypeError on \<^verbatim>\<open>null\<close>, ignored on a primitive, invisible in the JSON of
  an array.
\<close>

definition mark_pushed :: "jsval \<Rightarrow> js_error + jsval" where
  "mark_pushed d =
     (case d of
        Obj kvs \<Rightarrow>
          Inr (Obj (assign ''push''
                 (Obj [(''success'', Bool True),
                       (''message'', Str ''Commit created and available on remote'')]) kvs))
      | Null \<Rightarrow> Inl (type_error ''Cannot set properties of null (setting 'push')'')
      | Undefined \<Rightarrow> Inl (type_error ''Cannot set properties of undefined (setting 'push')'')
      | _ \<Rightarrow> Inr d)"

text \<open>
  \<^verbatim>\<open>PUT /api/repos/:owner/:repo/contents/:path\<close>. The cookie variant forwards
  \<open>content\<close> as it came (\<^verbatim>\<open>// Already base64 from frontend\<close>), the session variant
  encodes it. A missing \<open>content\<close> is the empty string in both.
\<close>

definition put_contents ::
  "variant \<Rightarrow> config \<Rightarrow> 's axios \<Rightarrow> req_user \<Rightarrow> string \<Rightarrow> string \<Rightarrow> string \<Rightarrow> request \<Rightarrow> 's
     \<Rightarrow> answer \<times> call list \<times> 's" where
  "put_contents v cfg axios u owner repo path req s =
     (let msg = default_to (Str ''Update via API'') (body_message (body req));
          content = (case body_content (body req) of None \<Rightarrow> [] | Some c \<Rightarrow> c);
          push = default_to (Bool False) (body_push (body req));
          payload = Obj ([(''message'', msg),
                          (''content'', Str (case v of CookieOnly \<Rightarrow> content
                                                     | SessionBacked \<Rightarrow> base64 content))]
                         @ when_truthy ''branch'' (body_branch (body req))
                         @ when_truthy ''sha'' (body_sha (body req))
                         @ when_truthy ''committer'' (body_committer (body req)));
          w = githubRequest cfg axios (token_text u) ''PUT'' (contents_path owner repo path)
                payload (Obj []) s
      in (case fst w of
            Inl err \<Rightarrow> relay_error err
          | Inr d \<Rightarrow>
              (case v of
                 SessionBacked \<Rightarrow> Json 200 d
               | CookieOnly \<Rightarrow>
                   if truthy push
                   then (case mark_pushed d of Inl err \<Rightarrow> relay_error err | Inr d' \<Rightarrow> Json 200 d')
                   else Json 200 d),
          snd w))"

subsection \<open>The route table\<close>

text \<open>
  The handler of a protected route, once the middleware has let the request through.
  The two open routes never get here; the last case only makes the function total.
\<close>

definition run_route ::
  "variant \<Rightarrow> config \<Rightarrow> 's axios \<Rightarrow> route \<Rightarrow> req_user \<Rightarrow> request \<Rightarrow> 's
     \<Rightarrow> (answer \<times> call list \<times> 's) option" where
  "run_route v cfg axios r u req s =
     (case r of
        ApiMe \<Rightarrow> (case v of CookieOnly \<Rightarrow> Some (api_me_cookie cfg axios u s)
                           | SessionBacked \<Rightarrow> Some (api_me_session u, [], s))
      | ApiRepos \<Rightarrow> (case v of CookieOnly \<Rightarrow> api_repos_cookie cfg axios u req s
                              | SessionBacked \<Rightarrow> Some (proxy_get cfg axios u ''/user/repos'' req s))
      | Branches owner repo \<Rightarrow>
          Some (proxy_get cfg axios u (''/repos/'' @ owner @ ''/'' @ repo @ ''/branches'') req s)
      | ContentsRoot owner repo \<Rightarrow>
          Some (proxy_get cfg axios u (''/repos/'' @ owner @ ''/'' @ repo @ ''/contents'') req s)
      | ContentsPath owner repo path \<Rightarrow>
          Some (proxy_get cfg axios u (contents_path owner repo path) req s)
      | Commits owner repo \<Rightarrow>
          Some (proxy_get cfg axios u (''/repos/'' @ owner @ ''/'' @ repo @ ''/commits'') req s)
      | GitTree owner repo sha \<Rightarrow>
          Some (proxy_get cfg axios u
                  (''/repos/'' @ owner @ ''/'' @ repo @ ''/git/trees/'' @ sha) req s)
      | SpecUpdate owner repo \<Rightarrow> Some (spec_update cfg axios u owner repo req s)
      | PutContents owner repo path \<Rightarrow> Some (put_contents v cfg axios u owner repo path req s)
      | _ \<Rightarrow> Some (NextError ''not a protected route'', [], s))"

text \<open>
  One request against the server: the reply, the upstream calls made for it, the
  session store and the upstream's state afterwards. \<open>needs_cb\<close> is the passport
  behaviour \<open>logout\<close> depends on.
\<close>

definition handle ::
  "variant \<Rightarrow> config \<Rightarrow> bool \<Rightarrow> string list \<Rightarrow> 's axios \<Rightarrow> route \<Rightarrow> request \<Rightarrow> sessions \<Rightarrow> 's
     \<Rightarrow> (reply \<times> call list \<times> sessions \<times> 's) option" where
  "handle v cfg needs_cb allowed axios r req ss s =
     (case r of
        Logout \<Rightarrow> (let l = logout v needs_cb req ss in Some (fst l, [], snd l, s))
      | AdminAllowedUsers \<Rightarrow>
          Some (plain (Json 200 (Obj [(''allowedUsers'', Arr (map Str allowed))])), [], ss, s)
      | _ \<Rightarrow>
          (case ensureAuthenticated v ss req of
             Inl a \<Rightarrow> Some (plain a, [], ss, s)
           | Inr u \<Rightarrow>
               (case run_route v cfg axios r u req s of
                  None \<Rightarrow> None
                | Some (a, calls, s') \<Rightarrow> Some (plain a, calls, ss, s'))))"

section \<open>Observing the upstream\<close>

text \<open>
  The answers an upstream gives to a list of requests made one after the other, and
  the state it is left in. It is used to say what the upstream did, never by the
  handlers themselves.
\<close>

fun serve :: "'s axios \<Rightarrow> axios_opts list \<Rightarrow> 's \<Rightarrow> (js_error + jsval) list \<times> 's" where
  "serve axios [] s = ([], s)"
| "serve axios (opts # rest) s =
     (let r = axios opts s; rs = serve axios rest (snd r) in (fst r # fst rs, snd rs))"

text \<open>
  An upstream that plays a script: each call, whatever it asks, is answered with the
  next entry, and with a network failure once the script is over.
\<close>

definition scripted :: "(js_error + jsval) list axios" where
  "scripted opts script =
     (case script of
        [] \<Rightarrow> (Inl \<lparr>response = None, message = ''connect ECONNREFUSED''\<rparr>, [])
      | r # rest \<Rightarrow> (r, rest))"

text \<open>What a run of \<open>handle\<close> answered and which calls it made.\<close>

definition answer_of :: "(reply \<times> call list \<times> sessions \<times> 's) option \<Rightarrow> answer option" where
  "answer_of out = map_option (\<lambda>x. answer (fst x)) out"

definition calls_of :: "(reply \<times> call list \<times> sessions \<times> 's) option \<Rightarrow> call list option" where
  "calls_of out = map_option (\<lambda>x. fst (snd x)) out"

text \<open>A call carries the token \<open>t\<close> in its \<^verbatim>\<open>Authorization\<close> header.\<close>

definition bears :: "string \<Rightarrow> call \<Rightarrow> bool" where
  "bears t c = (map_of (headers (fst c)) ''Authorization'' = Some (''token '' @ t))"

text \<open>\<^verbatim>\<open>Object.keys\<close> of a payload.\<close>

definition own_keys :: "jsval \<Rightarrow> string list" where
  "own_keys v = (case v of Obj kvs \<Rightarrow> map fst kvs | _ \<Rightarrow> [])"

section \<open>Sample data\<close>

definition cfg0 :: config where
  "cfg0 = \<lparr>ALLOWED_USERS = Some ''ALICE, bob'', APP_NAME = None, NODE_ENV = None\<rparr>"

definition alice :: profile where
  "alice = \<lparr>pid = Str ''1'', username = Some ''alice'', login = None, displayName = None,
            photos = Arr [], token = None\<rparr>"

definition mallory :: profile where
  "mallory = \<lparr>pid = Str ''2'', username = None, login = None, displayName = Some ''Mallory'',
              photos = Arr [], token = None\<rparr>"

definition no_body :: req_body where
  "no_body = \<lparr>body_path = None, body_content = None, body_message = Undefined,
              body_branch = Undefined, body_sha = Undefined, body_committer = Undefined,
              body_push = Undefined\<rparr>"

definition anonymous :: request where
  "anonymous = \<lparr>cookies = Map.empty, query = [], body = no_body\<rparr>"

definition with_cookie :: "string \<Rightarrow> string \<Rightarrow> request" where
  "with_cookie k c = anonymous\<lparr>cookies := [k \<mapsto> c]\<rparr>"

definition signed_in :: sessions where
  "signed_in = [''sid1'' \<mapsto> serializeUser (alice\<lparr>token := Some ''tok1''\<rparr>)]"

text \<open>Three pages of 100, 100 and 37 items.\<close>

definition page_a :: "jsval list" where
  "page_a = map Num [0..99]"

definition page_b :: "jsval list" where
  "page_b = map Num [100..199]"

definition page_c :: "jsval list" where
  "page_c = map Num [200..236]"

definition three_pages :: "(js_error + jsval) list" where
  "three_pages = [Inr (Arr page_a), Inr (Arr page_b), Inr (Arr page_c)]"

definition body422 :: jsval where
  "body422 = Obj [(''message'', Str ''validation failed'')]"

definition err422 :: js_error where
  "err422 = \<lparr>response = Some (422, body422), message = ''Request failed with status code 422''\<rparr>"

definition write_request :: "string \<Rightarrow> string \<Rightarrow> string \<Rightarrow> request" where
  "write_request k c content = (with_cookie k c)\<lparr>body := no_body\<lparr>body_content := Some content\<rparr>\<rparr>"

definition err404 :: js_error where
  "err404 = \<lparr>response = Some (404, Obj [(''message'', Str ''Not Found'')]),
             message = ''Request failed with status code 404''\<rparr>"

definition spec_target :: string where
  "spec_target = ''/repos/o/r/contents/spec.yaml''"

definition probe_opts :: axios_opts where
  "probe_opts = request_opts cfg0 ''tok1'' ''GET'' spec_target (Obj []) (Obj [(''ref'', Undefined)])"

definition put_opts :: "string \<Rightarrow> string \<Rightarrow> string \<Rightarrow> (string \<times> jsval) list \<Rightarrow> axios_opts" where
  "put_opts target msg content extra =
     request_opts cfg0 ''tok1'' ''PUT'' target
       (Obj ([(''message'', Str msg), (''content'', Str content)] @ extra)) (Obj [])"

definition found :: jsval where
  "found = Obj [(''name'', Str ''spec.yaml''), (''sha'', Str ''abc123'')]"

definition file_target :: string where
  "file_target = ''/repos/o/r/contents/f.txt''"

section \<open>Properties\<close>

subsection \<open>Auxiliary facts\<close>


lemma profile_name_token: "profile_name (p\<lparr>token := t\<rparr>) = profile_name p"
  by (simp add: profile_name_def)

lemma profile_name_alice: "toLowerCase (profile_name alice) = ''alice''"
  by (simp add: profile_name_def alice_def or_lit_def or_else_def truthy_str_def
      toLowerCase_def toLowerCase_char_def)

lemma profile_name_mallory: "toLowerCase (profile_name mallory) = ''mallory''"
  by (simp add: profile_name_def mallory_def or_lit_def or_else_def truthy_str_def
      toLowerCase_def toLowerCase_char_def)

lemma lower_sample: "toLowerCase ''ALICE'' = ''alice''" "toLowerCase ''bob'' = ''bob''"
  by (simp_all add: toLowerCase_def toLowerCase_char_def)

lemma verify_mallory: "verify [''ALICE'', ''bob''] tok mallory = None"
  by (simp add: verify_def Let_def profile_name_token profile_name_mallory lower_sample)

lemma verify_alice:
  "verify [''ALICE'', ''bob''] tok alice = Some (alice\<lparr>token := Some tok\<rparr>)"
  by (simp add: verify_def Let_def profile_name_token profile_name_alice lower_sample)

lemma page_lengths: "length page_a = 100" "length page_b = 100" "length page_c = 37"
  by (simp_all add: page_a_def page_b_def page_c_def)

lemma upt4: "[1..<Suc (Suc (length [x, y]))] = [1, 2, 3]"
  by (simp add: upt_rec)

lemma map_of_assign_same: "map_of (assign k v kvs) k = Some v"
  by (induction kvs) auto

lemma map_of_assign_other: "k' \<noteq> k \<Longrightarrow> map_of (assign k v kvs) k' = map_of kvs k'"
  by (induction kvs) auto

lemma page_params:
  "get_prop (params (page_opts cfg u req i)) ''per_page'' = Some (Num 100) \<and>
   get_prop (params (page_opts cfg u req i)) ''page'' = Some (Num (int i))"
  by (simp add: page_opts_def request_opts_def per_page_def map_of_assign_same map_of_assign_other)


lemma repos_loop_short:
  "ax (page_opts cfg u req page) s = (Inr (Arr p), s1) \<Longrightarrow> length p < 100 \<Longrightarrow>
   repos_loop cfg ax u req acc page calls s =
     Some (Json 200 (Arr (acc @ p)), calls @ [(page_opts cfg u req page, Inr (Arr p))], s1)"
  by (subst repos_loop.simps)
     (simp add: Let_def githubRequest_def page_opts_def per_page_def concat_js_def)

lemma repos_loop_full:
  "ax (page_opts cfg u req page) s = (Inr (Arr p), s1) \<Longrightarrow> 100 \<le> length p \<Longrightarrow>
   repos_loop cfg ax u req acc page calls s =
     repos_loop cfg ax u req (acc @ p) (Suc page)
       (calls @ [(page_opts cfg u req page, Inr (Arr p))]) s1"
  by (subst repos_loop.simps)
     (simp add: Let_def githubRequest_def page_opts_def per_page_def concat_js_def)

lemma repos_loop_pages:
  assumes "serve ax (map (page_opts cfg u req) [page..<page + Suc (length full)]) s
             = (map (\<lambda>p. Inr (Arr p)) (full @ [lst]), s')"
    and "\<forall>p\<in>set full. 100 \<le> length p"
    and "length lst < 100"
  shows "repos_loop cfg ax u req acc page calls s =
           Some (Json 200 (Arr (acc @ concat (full @ [lst]))),
                 calls @ zip (map (page_opts cfg u req) [page..<page + Suc (length full)])
                             (map (\<lambda>p. Inr (Arr p)) (full @ [lst])),
                 s')"
  using assms
proof (induction full arbitrary: acc page calls s)
  case Nil
  then have "ax (page_opts cfg u req page) s = (Inr (Arr lst), s')"
    by (simp add: Let_def prod_eq_iff)
  from repos_loop_short[where ax=ax and cfg=cfg and u=u and req=req and page=page and s=s, OF this Nil.prems(3)] show ?case by simp
next
  case (Cons p ps)
  have upt: "[page..<page + Suc (length (p # ps))] = page # [Suc page..<Suc page + Suc (length ps)]"
    by (simp add: upt_rec)
  from Cons.prems(1) obtain s1 where
    a: "ax (page_opts cfg u req page) s = (Inr (Arr p), s1)" and
    b: "serve ax (map (page_opts cfg u req) [Suc page..<Suc page + Suc (length ps)]) s1
          = (map (\<lambda>p. Inr (Arr p)) (ps @ [lst]), s')"
    unfolding upt by (auto simp: Let_def prod_eq_iff)
  have big: "100 \<le> length p" using Cons.prems by simp
  have rest: "\<forall>p\<in>set ps. 100 \<le> length p" using Cons.prems by simp
  show ?case
    unfolding upt repos_loop_full[where ax=ax and cfg=cfg and u=u and req=req and page=page and s=s, OF a big] Cons.IH[OF b rest Cons.prems(3)]
    by simp
qed

lemma admitted_cookie:
  "cookies req ''gh_token'' = Some t \<Longrightarrow> t \<noteq> [] \<Longrightarrow>
   ensureAuthenticated CookieOnly ss req = Inr (token_user t)"
  by (simp add: ensureAuthenticated_def ensureAuthenticated_cookie_def)

lemma admitted_session:
  "session_user ss req = Some u \<Longrightarrow> truthy_str (user_token u) \<Longrightarrow>
   ensureAuthenticated SessionBacked ss req = Inr u"
  by (simp add: ensureAuthenticated_def ensureAuthenticated_session_def)

lemma handle_protected:
  "protected r \<Longrightarrow> ensureAuthenticated v ss req = Inr u \<Longrightarrow>
   handle v cfg nb L ax r req ss s =
     map_option (\<lambda>(a, calls, s'). (plain a, calls, ss, s')) (run_route v cfg ax r u req s)"
  by (cases r) (auto simp: handle_def split: option.splits)

lemma signed_in_user:
  "session_user signed_in (with_cookie ''gh.sid'' ''sid1'')
     = Some (serializeUser (alice\<lparr>token := Some ''tok1''\<rparr>))"
  "truthy_str (user_token (serializeUser (alice\<lparr>token := Some ''tok1''\<rparr>)))"
  "token_text (serializeUser (alice\<lparr>token := Some ''tok1''\<rparr>)) = ''tok1''"
  by (simp_all add: session_user_def with_cookie_def anonymous_def signed_in_def
      serializeUser_def truthy_str_def token_text_def)

lemma cookie_sample: "cookies (with_cookie k c) k = Some c" "query (with_cookie k c) = []"
  by (simp_all add: with_cookie_def anonymous_def)

lemma repos_loop_last:
  assumes "repos_loop cfg ax u req acc page calls s = Some out"
  shows "fst (snd out) \<noteq> [] \<and>
         (\<forall>err. snd (last (fst (snd out))) = Inl err \<longrightarrow> fst out = relay_error err)"
  apply (rule repos_loop.raw_induct
          [where P = "\<lambda>cfg ax u req acc page calls s out. fst (snd out) \<noteq> [] \<and>
         (\<forall>err. snd (last (fst (snd out))) = Inl err \<longrightarrow> fst out = relay_error err)",
           OF _ assms])
  apply (auto simp: Let_def githubRequest_def split: if_splits)
  done

lemma run_route_last:
  assumes "run_route v cfg ax r u req s = Some (a, calls, s')"
    and "calls \<noteq> []" and "snd (last calls) = Inl err"
  shows "a = relay_error err"
proof (cases r)
  case ApiRepos
  show ?thesis
  proof (cases v)
    case CookieOnly
    with ApiRepos assms(1) have "repos_loop cfg ax u req [] 1 [] s = Some (a, calls, s')"
      by (simp add: run_route_def api_repos_cookie_def)
    from repos_loop_last[OF this] assms(3) show ?thesis by simp
  next
    case SessionBacked
    with ApiRepos assms show ?thesis
      by (auto simp: run_route_def proxy_get_def githubRequest_def Let_def split: sum.splits)
  qed
next
  case (SpecUpdate owner repo)
  with assms show ?thesis
    by (auto simp: run_route_def spec_update_def githubRequest_def Let_def
        split: sum.splits option.splits if_splits)
next
  case (PutContents owner repo path)
  with assms show ?thesis
    by (auto simp: run_route_def put_contents_def githubRequest_def Let_def
        split: sum.splits variant.splits if_splits)
next
  case ApiMe
  with assms show ?thesis
    by (auto simp: run_route_def api_me_cookie_def githubRequest_def Let_def
        split: sum.splits variant.splits)
qed (use assms in \<open>auto simp: run_route_def proxy_get_def githubRequest_def Let_def split: sum.splits\<close>)

lemma handle_calls:
  assumes "handle v cfg nb L ax r req ss s = Some (rep, calls, ss', s')" and "calls \<noteq> []"
  shows "\<exists>u a. run_route v cfg ax r u req s = Some (a, calls, s') \<and> rep = plain a"
  using assms
  by (cases r) (auto simp: handle_def Let_def split: sum.splits option.splits)

lemma branches_sample:
  "t \<noteq> [] \<Longrightarrow>
   handle CookieOnly cfg0 False [] scripted (Branches ''o'' ''r'')
       (with_cookie ''gh_token'' t) Map.empty script
     = Some (plain (case fst (scripted (request_opts cfg0 t ''GET'' ''/repos/o/r/branches''
                                          (Obj []) (Obj [])) script) of
                      Inl e \<Rightarrow> relay_error e | Inr d \<Rightarrow> Json 200 d),
             [(request_opts cfg0 t ''GET'' ''/repos/o/r/branches'' (Obj []) (Obj []),
               fst (scripted (request_opts cfg0 t ''GET'' ''/repos/o/r/branches''
                                (Obj []) (Obj [])) script))],
             Map.empty,
             snd (scripted (request_opts cfg0 t ''GET'' ''/repos/o/r/branches''
                              (Obj []) (Obj [])) script))"
  by (simp add: handle_protected [OF _ admitted_cookie [OF cookie_sample(1)]]
      run_route_def proxy_get_def githubRequest_def Let_def cookie_sample token_text_def
      token_user_def)

lemma handle_run:
  assumes "protected r" and "ensureAuthenticated v ss req = Inr u"
    and "handle v cfg nb L ax r req ss s = Some (rep, calls, ss', s')"
  shows "run_route v cfg ax r u req s = Some (answer rep, calls, s') \<and> rep = plain (answer rep)
         \<and> ss' = ss"
  using assms(3) unfolding handle_protected[OF assms(1,2)]
  by (auto simp: plain_def)

lemma spec_update_run:
  "body_content (body req) = Some c \<Longrightarrow> c \<noteq> [] \<Longrightarrow>
   run_route v cfg ax (SpecUpdate owner repo) u req s = Some (a, calls, s') \<Longrightarrow>
   length calls = 2 \<and>
   http_method (fst (hd calls)) = ''GET'' \<and>
   http_method (fst (last calls)) = ''PUT'' \<and>
   url (fst (last calls)) = url (fst (hd calls)) \<and>
   snd (hd calls) = fst (ax (fst (hd calls)) s) \<and>
   data (fst (last calls)) =
     Obj ([(''message'', default_to (Str ''Update spec via API'') (body_message (body req))),
           (''content'', Str (base64 c))]
          @ when_truthy ''branch'' (body_branch (body req))
          @ when_truthy ''sha'' (existing_sha (snd (hd calls))))"
  by (auto simp: run_route_def spec_update_def githubRequest_def Let_def request_opts_def)

lemma payload_sha:
  "get_prop (Obj ([(''message'', m), (''content'', c)] @ when_truthy ''branch'' b
                  @ when_truthy ''sha'' x)) ''sha'' = Some (if truthy x then x else Undefined)"
  "''sha'' \<in> set (own_keys (Obj ([(''message'', m), (''content'', c)] @ when_truthy ''branch'' b
                  @ when_truthy ''sha'' x))) \<longleftrightarrow> truthy x"
  "get_prop (Obj ([(''message'', m), (''content'', c)] @ rest)) ''content'' = Some c"
  by (auto simp: when_truthy_def own_keys_def)

lemma write_request_simps:
  "cookies (write_request k c x) k = Some c"
  "query (write_request k c x) = []"
  "body_content (body (write_request k c x)) = Some x"
  "body_path (body (write_request k c x)) = None"
  "body_message (body (write_request k c x)) = Undefined"
  "body_branch (body (write_request k c x)) = Undefined"
  "body_sha (body (write_request k c x)) = Undefined"
  "body_committer (body (write_request k c x)) = Undefined"
  "body_push (body (write_request k c x)) = Undefined"
  by (simp_all add: write_request_def with_cookie_def anonymous_def no_body_def)

lemma no_body_simps:
  "body_content (body (with_cookie k c)) = None"
  "body_path (body (with_cookie k c)) = None"
  "body_message (body (with_cookie k c)) = Undefined"
  "body_branch (body (with_cookie k c)) = Undefined"
  "body_sha (body (with_cookie k c)) = Undefined"
  "body_committer (body (with_cookie k c)) = Undefined"
  "body_push (body (with_cookie k c)) = Undefined"
  by (simp_all add: with_cookie_def anonymous_def no_body_def)

lemma base64_hi: "base64 ''hi'' = ''aGk=''" "base64 [] = []"
  by (simp_all add: base64_def b64_digit_def)

lemma encode_spec: "encodeURIComponent ''spec.yaml'' = ''spec.yaml''"
  by (simp add: encodeURIComponent_def uri_unreserved_def)

lemma token_text_user: "token_text (token_user t) = t"
  by (simp add: token_text_def token_user_def)

lemma spec_update_sample:
  "handle CookieOnly cfg0 False [] scripted (SpecUpdate ''o'' ''r'') (write_request ''gh_token'' ''tok1'' ''hi'')
       Map.empty [r1, r2]
     = Some (plain (case r2 of Inl e \<Rightarrow> relay_error e | Inr d \<Rightarrow> Json 200 d),
             [(probe_opts, r1),
              (put_opts spec_target ''Update spec via API'' ''aGk=''
                 (when_truthy ''sha'' (existing_sha r1)), r2)],
             Map.empty, [])"
  by (simp add: handle_protected [OF _ admitted_cookie [OF write_request_simps(1)]]
      run_route_def spec_update_def githubRequest_def Let_def write_request_simps
      token_text_user scripted_def base64_hi encode_spec contents_path_def default_to_def
      when_truthy_def probe_opts_def put_opts_def spec_target_def)

lemma put_contents_run:
  "run_route v cfg ax (PutContents owner repo path) u req s = Some (a, calls, s') \<Longrightarrow>
   length calls = 1 \<and>
   http_method (fst (last calls)) = ''PUT'' \<and>
   snd (last calls) = fst (ax (fst (last calls)) s) \<and>
   data (fst (last calls)) =
     Obj ([(''message'', default_to (Str ''Update via API'') (body_message (body req))),
           (''content'',
            Str (case v of
                   CookieOnly \<Rightarrow> (case body_content (body req) of None \<Rightarrow> [] | Some c \<Rightarrow> c)
                 | SessionBacked \<Rightarrow>
                     base64 (case body_content (body req) of None \<Rightarrow> [] | Some c \<Rightarrow> c)))]
          @ (when_truthy ''branch'' (body_branch (body req))
             @ when_truthy ''sha'' (body_sha (body req))
             @ when_truthy ''committer'' (body_committer (body req)))) \<and>
   (\<forall>e. snd (last calls) = Inl e \<longrightarrow> a = relay_error e) \<and>
   (\<forall>d. snd (last calls) = Inr d \<and> \<not> truthy (body_push (body req)) \<longrightarrow> a = Json 200 d)"
  by (auto simp: run_route_def put_contents_def githubRequest_def Let_def request_opts_def
      default_to_def split: variant.splits sum.splits)

lemma signed_in_write:
  "session_user signed_in (write_request ''gh.sid'' ''sid1'' x)
     = Some (serializeUser (alice\<lparr>token := Some ''tok1''\<rparr>))"
  by (simp add: session_user_def write_request_simps signed_in_def)

lemma put_sample_cookie:
  "handle CookieOnly cfg0 False [] scripted (PutContents ''o'' ''r'' ''f.txt'')
       (write_request ''gh_token'' ''tok1'' x) Map.empty [Inr (Obj [])]
     = Some (\<lparr>answer = Json 200 (Obj []), cookie_ops = []\<rparr>,
             [(put_opts file_target ''Update via API'' x [], Inr (Obj []))], Map.empty, [])"
  by (simp add: handle_protected [OF _ admitted_cookie [OF write_request_simps(1)]]
      run_route_def put_contents_def githubRequest_def Let_def write_request_simps
      token_text_user scripted_def contents_path_def default_to_def
      when_truthy_def put_opts_def file_target_def plain_def)

lemma put_sample_session:
  "handle SessionBacked cfg0 False [] scripted (PutContents ''o'' ''r'' ''f.txt'')
       (write_request ''gh.sid'' ''sid1'' x) signed_in [Inr (Obj [])]
     = Some (\<lparr>answer = Json 200 (Obj []), cookie_ops = []\<rparr>,
             [(put_opts file_target ''Update via API'' (base64 x) [], Inr (Obj []))],
             signed_in, [])"
  by (simp add: handle_protected [OF _ admitted_session [OF signed_in_write signed_in_user(2)]]
      run_route_def put_contents_def githubRequest_def Let_def write_request_simps
      signed_in_user(3) scripted_def contents_path_def default_to_def
      when_truthy_def put_opts_def file_target_def plain_def)

lemma put_sample_empty:
  "handle CookieOnly cfg0 False [] scripted (PutContents ''o'' ''r'' ''f.txt'')
       (with_cookie ''gh_token'' ''tok1'') Map.empty [Inr (Obj [])]
     = Some (\<lparr>answer = Json 200 (Obj []), cookie_ops = []\<rparr>,
             [(put_opts file_target ''Update via API'' [] [], Inr (Obj []))], Map.empty, [])"
  by (simp add: handle_protected [OF _ admitted_cookie [OF cookie_sample(1)]]
      run_route_def put_contents_def githubRequest_def Let_def no_body_simps
      token_text_user scripted_def contents_path_def default_to_def
      when_truthy_def put_opts_def file_target_def plain_def)

lemma put_opts_content: "get_prop (data (put_opts target msg x extra)) ''content'' = Some (Str x)"
  by (simp add: put_opts_def request_opts_def)

lemma bears_request: "bears t (request_opts cfg t meth path dat prms, r)"
  by (simp add: bears_def request_opts_def)

lemma repos_loop_bears:
  assumes "repos_loop cfg ax u req acc page calls s = Some out"
  shows "list_all (bears (token_text u)) calls
           \<longrightarrow> list_all (bears (token_text u)) (fst (snd out))"
  apply (rule repos_loop.raw_induct
          [where P = "\<lambda>cfg ax u req acc page calls s out.
             list_all (bears (token_text u)) calls
               \<longrightarrow> list_all (bears (token_text u)) (fst (snd out))",
           OF _ assms])
  apply (auto simp: Let_def githubRequest_def bears_request split: if_splits)
  done

lemma run_route_bears:
  assumes "run_route v cfg ax r u req s = Some (a, calls, s')"
  shows "list_all (bears (token_text u)) calls"
proof (cases r)
  case ApiRepos
  show ?thesis
  proof (cases v)
    case CookieOnly
    with ApiRepos assms have "repos_loop cfg ax u req [] 1 [] s = Some (a, calls, s')"
      by (simp add: run_route_def api_repos_cookie_def)
    from repos_loop_bears[OF this] show ?thesis by simp
  next
    case SessionBacked
    with ApiRepos assms show ?thesis
      by (auto simp: run_route_def proxy_get_def githubRequest_def Let_def bears_request)
  qed
next
  case (SpecUpdate owner repo)
  with assms show ?thesis
    by (auto simp: run_route_def spec_update_def githubRequest_def Let_def bears_request
        split: option.splits if_splits)
next
  case (PutContents owner repo path)
  with assms show ?thesis
    by (auto simp: run_route_def put_contents_def githubRequest_def Let_def bears_request)
next
  case ApiMe
  with assms show ?thesis
    by (auto simp: run_route_def api_me_cookie_def githubRequest_def Let_def bears_request
        split: variant.splits)
qed (use assms in \<open>auto simp: run_route_def proxy_get_def githubRequest_def Let_def
       bears_request\<close>)

lemma handle_some:
  "r \<noteq> ApiRepos \<or> v = SessionBacked \<Longrightarrow>
   \<exists>rep calls ss' s'. handle v cfg nb L ax r req ss s = Some (rep, calls, ss', s')"
  by (cases r)
     (auto simp: handle_def run_route_def Let_def split: sum.splits variant.splits prod.splits)

lemma repos_loop_error:
  "ax (page_opts cfg u req page) s = (Inl e, s1) \<Longrightarrow>
   repos_loop cfg ax u req acc page calls s =
     Some (relay_error e, calls @ [(page_opts cfg u req page, Inl e)], s1)"
  by (subst repos_loop.simps)
     (simp add: Let_def githubRequest_def page_opts_def per_page_def concat_js_def)

lemma repos_loop_rejected:
  assumes "serve ax (map (page_opts cfg u req) [page..<page + Suc (length full)]) s
             = (map (\<lambda>p. Inr (Arr p)) full @ [Inl e], s')"
    and "\<forall>p\<in>set full. 100 \<le> length p"
  shows "repos_loop cfg ax u req acc page calls s =
           Some (relay_error e,
                 calls @ zip (map (page_opts cfg u req) [page..<page + Suc (length full)])
                             (map (\<lambda>p. Inr (Arr p)) full @ [Inl e]),
                 s')"
  using assms
proof (induction full arbitrary: acc page calls s)
  case Nil
  then have "ax (page_opts cfg u req page) s = (Inl e, s')"
    by (simp add: Let_def prod_eq_iff)
  from repos_loop_error [where ax = ax and cfg = cfg and u = u and req = req and page = page
      and s = s, OF this]
  show ?case by simp
next
  case (Cons p ps)
  have upt: "[page..<page + Suc (length (p # ps))]
               = page # [Suc page..<Suc page + Suc (length ps)]"
    by (simp add: upt_rec)
  from Cons.prems(1) obtain s1 where
    a: "ax (page_opts cfg u req page) s = (Inr (Arr p), s1)" and
    b: "serve ax (map (page_opts cfg u req) [Suc page..<Suc page + Suc (length ps)]) s1
          = (map (\<lambda>p. Inr (Arr p)) ps @ [Inl e], s')"
    unfolding upt by (auto simp: Let_def prod_eq_iff)
  have big: "100 \<le> length p" using Cons.prems by simp
  have rest: "\<forall>p\<in>set ps. 100 \<le> length p" using Cons.prems by simp
  show ?case
    unfolding upt
      repos_loop_full [where ax = ax and cfg = cfg and u = u and req = req and page = page
        and s = s, OF a big]
      Cons.IH [OF b rest]
    by simp
qed

subsection \<open>The allow-list gate\<close>



text \<open>
  C8. In the callback a credential is stored (a cookie set, or the session store
  changed) only when the provider returned an identity and the gate passed it; when
  the gate rejects the identity the caller is redirected to \<^verbatim>\<open>/unauthorized.html\<close>,
  no cookie is set and the session store is left as it was.
\<close>

theorem credential_only_after_gate:
  "(cookie_ops (fst (auth_callback v cfg L ex sid login_err ss)) \<noteq> [] \<or>
    snd (auth_callback v cfg L ex sid login_err ss) \<noteq> ss
      \<longrightarrow> (\<exists>tok p u. ex = Exchanged tok p \<and> verify L tok p = Some u)) \<and>
   (\<forall>tok p. ex = Exchanged tok p \<and> verify L tok p = None
      \<longrightarrow> auth_callback v cfg L ex sid login_err ss
            = (\<lparr>answer = Redirect ''/unauthorized.html'', cookie_ops = []\<rparr>, ss))"
  by (cases ex; cases v) (auto simp: auth_callback_def plain_def split: option.splits)

theorem credential_only_after_gate_witness:
  "auth_callback SessionBacked cfg0 [''ALICE'', ''bob''] (Exchanged ''tok2'' mallory) ''sid2'' None
     signed_in
     = (\<lparr>answer = Redirect ''/unauthorized.html'', cookie_ops = []\<rparr>, signed_in) \<and>
   cookie_ops (fst (auth_callback CookieOnly cfg0 [''ALICE'', ''bob''] (Exchanged ''tok1'' alice)
     ''sid1'' None Map.empty)) \<noteq> [] \<and>
   verify [''ALICE'', ''bob''] ''tok1'' alice = Some (alice\<lparr>token := Some ''tok1''\<rparr>)"
  using credential_only_after_gate
          [where v = SessionBacked and cfg = cfg0 and L = "[''ALICE'', ''bob'']"
             and ex = "Exchanged ''tok2'' mallory" and sid = "''sid2''" and login_err = None
             and ss = signed_in]
        verify_mallory [of "''tok2''"] verify_alice [of "''tok1''"]
  by (simp add: auth_callback_def)

subsection \<open>The auth middleware\<close>

text \<open>
  C2. On every protected route (all of \<^verbatim>\<open>/api/*\<close>), a request with no credential (in
  the cookie variant no \<^verbatim>\<open>gh_token\<close> cookie or an empty one, in the session variant
  no session user with a non-empty token) is answered with status 401 and the body
  \<^verbatim>\<open>{error: "Unauthorized. Please log in via /auth/github"}\<close>, and no upstream call is
  made: the list of calls is empty and the upstream's state is untouched.
\<close>

theorem unauthorized_without_credential:
  assumes "protected r"
    and "case v of
           CookieOnly \<Rightarrow> cookies req ''gh_token'' = None \<or> cookies req ''gh_token'' = Some []
         | SessionBacked \<Rightarrow>
             \<not> (\<exists>u t. session_user ss req = Some u \<and> user_token u = Some t \<and> t \<noteq> [])"
  shows "handle v cfg nb L ax r req ss s =
           Some (\<lparr>answer = Json 401
                     (Obj [(''error'', Str ''Unauthorized. Please log in via /auth/github'')]),
                  cookie_ops = []\<rparr>, [], ss, s)"
  using assms
  by (cases r; cases v)
     (auto simp: ensureAuthenticated_def ensureAuthenticated_cookie_def
        ensureAuthenticated_session_def handle_def unauthorized_def plain_def truthy_str_def
        split: option.splits)

theorem unauthorized_without_credential_witness:
  "protected (PutContents ''o'' ''r'' ''f.txt'') \<and>
   cookies anonymous ''gh_token'' = None \<and>
   handle CookieOnly cfg0 False [] scripted (PutContents ''o'' ''r'' ''f.txt'') anonymous
       Map.empty [Inr (Arr [])]
     = Some (\<lparr>answer = Json 401
                 (Obj [(''error'', Str ''Unauthorized. Please log in via /auth/github'')]),
              cookie_ops = []\<rparr>, [], Map.empty, [Inr (Arr [])]) \<and>
   session_user signed_in (with_cookie ''gh.sid'' ''sid9'') = None \<and>
   handle SessionBacked cfg0 False [] scripted ApiRepos (with_cookie ''gh.sid'' ''sid9'')
       signed_in [Inr (Arr [])]
     = Some (\<lparr>answer = Json 401
                 (Obj [(''error'', Str ''Unauthorized. Please log in via /auth/github'')]),
              cookie_ops = []\<rparr>, [], signed_in, [Inr (Arr [])])"
proof -
  have a: "protected (PutContents ''o'' ''r'' ''f.txt'')" and b: "protected ApiRepos"
    by simp_all
  have c: "cookies anonymous ''gh_token'' = None"
    by (simp add: anonymous_def)
  have d: "session_user signed_in (with_cookie ''gh.sid'' ''sid9'') = None"
    by (simp add: session_user_def with_cookie_def anonymous_def signed_in_def)
  show ?thesis
    using a c d
      unauthorized_without_credential [where r = "PutContents ''o'' ''r'' ''f.txt''"
        and v = CookieOnly and req = anonymous and ss = Map.empty and cfg = cfg0 and nb = False
        and L = "[]" and ax = scripted and s = "[Inr (Arr [])]"]
      unauthorized_without_credential [where r = ApiRepos and v = SessionBacked
        and req = "with_cookie ''gh.sid'' ''sid9''" and ss = signed_in and cfg = cfg0
        and nb = False and L = "[]" and ax = scripted and s = "[Inr (Arr [])]"]
    by simp
qed

text \<open>
  C10. In the cookie variant the middleware lets a request through exactly when the
  \<^verbatim>\<open>gh_token\<close> cookie is there and not empty. It looks at nothing else (neither the
  session store nor the upstream is an argument of the test), and on every protected
  route the handler then runs with that cookie string as \<^verbatim>\<open>req.user.token\<close>: every
  upstream call the request leads to carries it in the \<^verbatim>\<open>Authorization\<close> header.
\<close>

theorem cookie_admits_any_token:
  "((\<exists>u. ensureAuthenticated CookieOnly ss req = Inr u)
      \<longleftrightarrow> (\<exists>t. cookies req ''gh_token'' = Some t \<and> t \<noteq> [])) \<and>
   (cookies req ''gh_token'' = Some t \<and> t \<noteq> [] \<and> protected r \<longrightarrow>
      ensureAuthenticated_cookie req = Inr (token_user t) \<and>
      user_token (token_user t) = Some t \<and>
      handle CookieOnly cfg nb L ax r req ss s =
        map_option (\<lambda>(a, calls, s'). (plain a, calls, ss, s'))
          (run_route CookieOnly cfg ax r (token_user t) req s) \<and>
      (\<forall>rep calls ss' s'.
          handle CookieOnly cfg nb L ax r req ss s = Some (rep, calls, ss', s')
            \<longrightarrow> list_all (bears t) calls))"
proof (intro conjI impI allI)
  show "(\<exists>u. ensureAuthenticated CookieOnly ss req = Inr u)
          \<longleftrightarrow> (\<exists>t. cookies req ''gh_token'' = Some t \<and> t \<noteq> [])"
    by (auto simp: ensureAuthenticated_def ensureAuthenticated_cookie_def split: option.splits)
next
  assume a: "cookies req ''gh_token'' = Some t \<and> t \<noteq> [] \<and> protected r"
  then show "ensureAuthenticated_cookie req = Inr (token_user t)"
    by (simp add: ensureAuthenticated_cookie_def)
  show "user_token (token_user t) = Some t"
    by (simp add: token_user_def)
  from a have auth: "ensureAuthenticated CookieOnly ss req = Inr (token_user t)"
    by (simp add: admitted_cookie)
  from a show "handle CookieOnly cfg nb L ax r req ss s =
        map_option (\<lambda>(a, calls, s'). (plain a, calls, ss, s'))
          (run_route CookieOnly cfg ax r (token_user t) req s)"
    by (simp add: handle_protected [OF _ auth])
  fix rep calls ss' s'
  assume h: "handle CookieOnly cfg nb L ax r req ss s = Some (rep, calls, ss', s')"
  from a have p: "protected r" by simp
  from handle_run [OF p auth h]
  have "run_route CookieOnly cfg ax r (token_user t) req s = Some (answer rep, calls, s')"
    by simp
  from run_route_bears [OF this] show "list_all (bears t) calls"
    by (simp add: token_text_user)
qed

theorem cookie_admits_any_token_witness:
  "cookies (with_cookie ''gh_token'' ''not-a-real-token'') ''gh_token'' = Some ''not-a-real-token'' \<and>
   handle CookieOnly cfg0 False [] scripted (Branches ''o'' ''r'')
       (with_cookie ''gh_token'' ''not-a-real-token'') Map.empty [Inr (Arr [])]
     = Some (\<lparr>answer = Json 200 (Arr []), cookie_ops = []\<rparr>,
             [(request_opts cfg0 ''not-a-real-token'' ''GET'' ''/repos/o/r/branches''
                 (Obj []) (Obj []), Inr (Arr []))],
             Map.empty, []) \<and>
   list_all (bears ''not-a-real-token'')
     [(request_opts cfg0 ''not-a-real-token'' ''GET'' ''/repos/o/r/branches''
         (Obj []) (Obj []), Inr (Arr []))]"
proof -
  let ?req = "with_cookie ''gh_token'' ''not-a-real-token''"
  have c: "cookies ?req ''gh_token'' = Some ''not-a-real-token'' \<and> ''not-a-real-token'' \<noteq> []
             \<and> protected (Branches ''o'' ''r'')"
    by (simp add: cookie_sample)
  have h: "handle CookieOnly cfg0 False [] scripted (Branches ''o'' ''r'') ?req Map.empty
             [Inr (Arr [])]
     = Some (\<lparr>answer = Json 200 (Arr []), cookie_ops = []\<rparr>,
             [(request_opts cfg0 ''not-a-real-token'' ''GET'' ''/repos/o/r/branches''
                 (Obj []) (Obj []), Inr (Arr []))],
             Map.empty, [])"
    by (simp add: branches_sample scripted_def plain_def)
  from cookie_admits_any_token [where ss = Map.empty and req = ?req
        and t = "''not-a-real-token''" and r = "Branches ''o'' ''r''" and cfg = cfg0
        and nb = False and L = "[]" and ax = scripted and s = "[Inr (Arr [])]",
        THEN conjunct2, THEN mp, OF c] h
  have "list_all (bears ''not-a-real-token'')
     [(request_opts cfg0 ''not-a-real-token'' ''GET'' ''/repos/o/r/branches''
         (Obj []) (Obj []), Inr (Arr []))]"
    by blast
  with c h show ?thesis by blast
qed

subsection \<open>Pagination of the repository list\<close>

text \<open>
  C3, as amended. Cookie variant: \<^verbatim>\<open>GET /api/repos\<close> asks for page 1, 2, ... with
  \<^verbatim>\<open>per_page\<close> 100, one call after the other. When the upstream answers these
  calls with pages of which all but the last hold at least 100 items and the last
  holds fewer, the route makes exactly these calls and answers 200 with the pages
  concatenated in order. Session variant: the route makes one call with the caller's
  own query and relays its answer, whatever the size of the page.
\<close>

theorem pagination:
  "(cookies req ''gh_token'' = Some t \<and> t \<noteq> [] \<and>
    serve ax (map (page_opts cfg (token_user t) req) [1..<Suc (Suc (length full))]) s
       = (map (\<lambda>p. Inr (Arr p)) (full @ [lst]), s') \<and>
    (\<forall>p\<in>set full. 100 \<le> length p) \<and> length lst < 100
    \<longrightarrow>
    handle CookieOnly cfg nb L ax ApiRepos req ss s =
      Some (\<lparr>answer = Json 200 (Arr (concat (full @ [lst]))), cookie_ops = []\<rparr>,
            zip (map (page_opts cfg (token_user t) req) [1..<Suc (Suc (length full))])
                (map (\<lambda>p. Inr (Arr p)) (full @ [lst])),
            ss, s')) \<and>
   (get_prop (params (page_opts cfg u req i)) ''per_page'' = Some (Num 100) \<and>
    get_prop (params (page_opts cfg u req i)) ''page'' = Some (Num (int i))) \<and>
   (session_user ss req = Some u \<and> truthy_str (user_token u)
    \<longrightarrow>
    handle SessionBacked cfg nb L ax ApiRepos req ss s =
      Some (\<lparr>answer = (case fst (ax (request_opts cfg (token_text u) ''GET'' ''/user/repos''
                                      (Obj []) (Obj (query req))) s) of
                         Inl err \<Rightarrow> relay_error err | Inr d \<Rightarrow> Json 200 d),
              cookie_ops = []\<rparr>,
            [(request_opts cfg (token_text u) ''GET'' ''/user/repos'' (Obj []) (Obj (query req)),
              fst (ax (request_opts cfg (token_text u) ''GET'' ''/user/repos''
                         (Obj []) (Obj (query req))) s))],
            ss,
            snd (ax (request_opts cfg (token_text u) ''GET'' ''/user/repos''
                       (Obj []) (Obj (query req))) s)))"
proof (intro conjI impI)
  assume a: "cookies req ''gh_token'' = Some t \<and> t \<noteq> [] \<and>
    serve ax (map (page_opts cfg (token_user t) req) [1..<Suc (Suc (length full))]) s
       = (map (\<lambda>p. Inr (Arr p)) (full @ [lst]), s') \<and>
    (\<forall>p\<in>set full. 100 \<le> length p) \<and> length lst < 100"
  then have auth: "ensureAuthenticated CookieOnly ss req = Inr (token_user t)"
    by (simp add: admitted_cookie)
  from a have sv: "serve ax (map (page_opts cfg (token_user t) req) [1..<1 + Suc (length full)]) s
       = (map (\<lambda>p. Inr (Arr p)) (full @ [lst]), s')" by simp
  from a have full: "\<forall>p\<in>set full. 100 \<le> length p" and short: "length lst < 100" by simp_all
  have "repos_loop cfg ax (token_user t) req [] 1 [] s =
          Some (Json 200 (Arr ([] @ concat (full @ [lst]))),
                [] @ zip (map (page_opts cfg (token_user t) req) [1..<1 + Suc (length full)])
                   (map (\<lambda>p. Inr (Arr p)) (full @ [lst])), s')"
    by (rule repos_loop_pages[OF sv full short])
  then show "handle CookieOnly cfg nb L ax ApiRepos req ss s =
      Some (\<lparr>answer = Json 200 (Arr (concat (full @ [lst]))), cookie_ops = []\<rparr>,
            zip (map (page_opts cfg (token_user t) req) [1..<Suc (Suc (length full))])
                (map (\<lambda>p. Inr (Arr p)) (full @ [lst])),
            ss, s')"
    by (simp add: handle_protected[OF _ auth] run_route_def api_repos_cookie_def plain_def)
next
  show "get_prop (params (page_opts cfg u req i)) ''per_page'' = Some (Num 100)"
    by (simp add: page_params)
next
  show "get_prop (params (page_opts cfg u req i)) ''page'' = Some (Num (int i))"
    by (simp add: page_params)
next
  assume "session_user ss req = Some u \<and> truthy_str (user_token u)"
  then have auth: "ensureAuthenticated SessionBacked ss req = Inr u"
    by (simp add: admitted_session)
  show "handle SessionBacked cfg nb L ax ApiRepos req ss s =
      Some (\<lparr>answer = (case fst (ax (request_opts cfg (token_text u) ''GET'' ''/user/repos''
                                      (Obj []) (Obj (query req))) s) of
                         Inl err \<Rightarrow> relay_error err | Inr d \<Rightarrow> Json 200 d),
              cookie_ops = []\<rparr>,
            [(request_opts cfg (token_text u) ''GET'' ''/user/repos'' (Obj []) (Obj (query req)),
              fst (ax (request_opts cfg (token_text u) ''GET'' ''/user/repos''
                         (Obj []) (Obj (query req))) s))],
            ss,
            snd (ax (request_opts cfg (token_text u) ''GET'' ''/user/repos''
                       (Obj []) (Obj (query req))) s))"
    by (simp add: handle_protected[OF _ auth] run_route_def proxy_get_def githubRequest_def
        Let_def plain_def)
qed


theorem pagination_witness:
  "handle CookieOnly cfg0 False [] scripted ApiRepos (with_cookie ''gh_token'' ''tok1'')
       Map.empty three_pages
     = Some (\<lparr>answer = Json 200 (Arr (page_a @ page_b @ page_c)), cookie_ops = []\<rparr>,
             [(page_opts cfg0 (token_user ''tok1'') (with_cookie ''gh_token'' ''tok1'') 1,
               Inr (Arr page_a)),
              (page_opts cfg0 (token_user ''tok1'') (with_cookie ''gh_token'' ''tok1'') 2,
               Inr (Arr page_b)),
              (page_opts cfg0 (token_user ''tok1'') (with_cookie ''gh_token'' ''tok1'') 3,
               Inr (Arr page_c))],
             Map.empty, []) \<and>
   length (page_a @ page_b @ page_c) = 237 \<and>
   handle CookieOnly cfg0 False [] scripted ApiRepos (with_cookie ''gh_token'' ''tok1'')
       Map.empty [Inr (Arr page_c)]
     = Some (\<lparr>answer = Json 200 (Arr page_c), cookie_ops = []\<rparr>,
             [(page_opts cfg0 (token_user ''tok1'') (with_cookie ''gh_token'' ''tok1'') 1,
               Inr (Arr page_c))],
             Map.empty, [])"
proof -
  let ?req = "with_cookie ''gh_token'' ''tok1''"
  have three:
    "cookies ?req ''gh_token'' = Some ''tok1'' \<and> ''tok1'' \<noteq> [] \<and>
     serve scripted (map (page_opts cfg0 (token_user ''tok1'') ?req)
        [1..<Suc (Suc (length [page_a, page_b]))]) three_pages
      = (map (\<lambda>p. Inr (Arr p)) ([page_a, page_b] @ [page_c]), []) \<and>
     (\<forall>p\<in>set [page_a, page_b]. 100 \<le> length p) \<and> length page_c < 100"
    by (simp add: upt4 three_pages_def scripted_def Let_def cookie_sample page_lengths)
  have one:
    "cookies ?req ''gh_token'' = Some ''tok1'' \<and> ''tok1'' \<noteq> [] \<and>
     serve scripted (map (page_opts cfg0 (token_user ''tok1'') ?req)
        [1..<Suc (Suc (length ([] :: jsval list list)))]) [Inr (Arr page_c)]
      = (map (\<lambda>p. Inr (Arr p)) ([] @ [page_c]), []) \<and>
     (\<forall>p\<in>set ([] :: jsval list list). 100 \<le> length p) \<and> length page_c < 100"
    by (simp add: upt_rec scripted_def Let_def cookie_sample page_lengths)
  note r3 = pagination [where req = ?req and t = "''tok1''"
        and ax = scripted and cfg = cfg0 and full = "[page_a, page_b]" and lst = page_c
        and s = three_pages and s' = "[]" and nb = False and L = "[]" and ss = Map.empty,
        THEN conjunct1, THEN mp, OF three]
  note r1 = pagination [where req = ?req and t = "''tok1''"
        and ax = scripted and cfg = cfg0 and full = "[]" and lst = page_c
        and s = "[Inr (Arr page_c)]" and s' = "[]" and nb = False and L = "[]" and ss = Map.empty,
        THEN conjunct1, THEN mp, OF one]
  from r3 r1 show ?thesis
    by (simp add: upt4 upt_rec page_lengths eval_nat_numeral)
qed

text \<open>
  C3 as stated fails in the session variant: against an upstream that serves pages
  of 100, 100 and 37 items the route makes one call and returns the first 100 items.
\<close>

theorem pagination_session_counterexample:
  "handle SessionBacked cfg0 False [] scripted ApiRepos (with_cookie ''gh.sid'' ''sid1'')
       signed_in three_pages
     = Some (\<lparr>answer = Json 200 (Arr page_a), cookie_ops = []\<rparr>,
             [(request_opts cfg0 ''tok1'' ''GET'' ''/user/repos'' (Obj []) (Obj []),
               Inr (Arr page_a))],
             signed_in, [Inr (Arr page_b), Inr (Arr page_c)]) \<and>
   length page_a = 100"
  by (simp add: handle_protected [OF _ admitted_session [OF signed_in_user(1) signed_in_user(2)]]
      run_route_def proxy_get_def githubRequest_def Let_def plain_def signed_in_user(3)
      cookie_sample scripted_def three_pages_def page_lengths)

subsection \<open>Relaying upstream failures\<close>

text \<open>
  C4, as amended. On every route, a request whose last upstream call was rejected is
  answered with the error envelope of that rejection: if the upstream answered with
  status \<open>S\<close> and a truthy body \<open>B\<close>, the status is \<open>S\<close> and the body is
  \<^verbatim>\<open>{error: B}\<close> with \<open>B\<close> unchanged inside; if there was no HTTP response at all, the
  status is 500 and the body is \<^verbatim>\<open>{error: <the local error message>}\<close>. The request
  is answered: every route but the paginated list answers whatever the upstream
  does, and the paginated list answers as soon as a page is rejected.
\<close>

theorem upstream_error_relay:
  "(handle v cfg nb L ax r req ss s = Some (rep, calls, ss', s') \<and> calls \<noteq> [] \<and>
    snd (last calls) = Inl err
      \<longrightarrow> rep = \<lparr>answer = relay_error err, cookie_ops = []\<rparr>) \<and>
   (r \<noteq> ApiRepos \<or> v = SessionBacked
      \<longrightarrow> (\<exists>out. handle v cfg nb L ax r req ss s = Some out)) \<and>
   (cookies req ''gh_token'' = Some t \<and> t \<noteq> [] \<and>
    serve ax (map (page_opts cfg (token_user t) req) [1..<Suc (Suc (length full))]) s
       = (map (\<lambda>p. Inr (Arr p)) full @ [Inl err], s') \<and>
    (\<forall>p\<in>set full. 100 \<le> length p)
      \<longrightarrow> handle CookieOnly cfg nb L ax ApiRepos req ss s =
            Some (\<lparr>answer = relay_error err, cookie_ops = []\<rparr>,
                  zip (map (page_opts cfg (token_user t) req) [1..<Suc (Suc (length full))])
                      (map (\<lambda>p. Inr (Arr p)) full @ [Inl err]),
                  ss, s')) \<and>
   (response err = Some (S, B) \<and> 0 < S \<and> truthy B
      \<longrightarrow> relay_error err = Json S (Obj [(''error'', B)])) \<and>
   (response err = None
      \<longrightarrow> relay_error err = Json 500 (Obj [(''error'', Str (message err))]))"
proof (intro conjI impI)
  assume a: "handle v cfg nb L ax r req ss s = Some (rep, calls, ss', s') \<and> calls \<noteq> [] \<and>
    snd (last calls) = Inl err"
  then have h: "handle v cfg nb L ax r req ss s = Some (rep, calls, ss', s')"
    and ne: "calls \<noteq> []" and l: "snd (last calls) = Inl err"
    by simp_all
  from handle_calls [OF h ne] obtain u a where
    run: "run_route v cfg ax r u req s = Some (a, calls, s')" and rep: "rep = plain a"
    by blast
  have "a = relay_error err"
    by (rule run_route_last [OF run ne l])
  with rep show "rep = \<lparr>answer = relay_error err, cookie_ops = []\<rparr>"
    by (simp add: plain_def)
next
  assume "r \<noteq> ApiRepos \<or> v = SessionBacked"
  from handle_some [where cfg = cfg and nb = nb and L = L and ax = ax and req = req
      and ss = ss and s = s, OF this]
  show "\<exists>out. handle v cfg nb L ax r req ss s = Some out"
    by auto
next
  assume a: "cookies req ''gh_token'' = Some t \<and> t \<noteq> [] \<and>
    serve ax (map (page_opts cfg (token_user t) req) [1..<Suc (Suc (length full))]) s
       = (map (\<lambda>p. Inr (Arr p)) full @ [Inl err], s') \<and>
    (\<forall>p\<in>set full. 100 \<le> length p)"
  then have auth: "ensureAuthenticated CookieOnly ss req = Inr (token_user t)"
    by (simp add: admitted_cookie)
  from a have
    sv: "serve ax (map (page_opts cfg (token_user t) req) [1..<1 + Suc (length full)]) s
           = (map (\<lambda>p. Inr (Arr p)) full @ [Inl err], s')"
    and full: "\<forall>p\<in>set full. 100 \<le> length p"
    by simp_all
  have "repos_loop cfg ax (token_user t) req [] 1 [] s =
          Some (relay_error err,
                [] @ zip (map (page_opts cfg (token_user t) req) [1..<1 + Suc (length full)])
                   (map (\<lambda>p. Inr (Arr p)) full @ [Inl err]), s')"
    by (rule repos_loop_rejected [OF sv full])
  then show "handle CookieOnly cfg nb L ax ApiRepos req ss s =
            Some (\<lparr>answer = relay_error err, cookie_ops = []\<rparr>,
                  zip (map (page_opts cfg (token_user t) req) [1..<Suc (Suc (length full))])
                      (map (\<lambda>p. Inr (Arr p)) full @ [Inl err]),
                  ss, s')"
    by (simp add: handle_protected [OF _ auth] run_route_def api_repos_cookie_def plain_def)
next
  assume "response err = Some (S, B) \<and> 0 < S \<and> truthy B"
  then show "relay_error err = Json S (Obj [(''error'', B)])"
    by (simp add: relay_error_def)
next
  assume "response err = None"
  then show "relay_error err = Json 500 (Obj [(''error'', Str (message err))])"
    by (simp add: relay_error_def)
qed

theorem upstream_error_relay_witness:
  "handle CookieOnly cfg0 False [] scripted (Branches ''o'' ''r'')
       (with_cookie ''gh_token'' ''tok1'') Map.empty [Inl err422]
     = Some (\<lparr>answer = Json 422 (Obj [(''error'', body422)]), cookie_ops = []\<rparr>,
             [(request_opts cfg0 ''tok1'' ''GET'' ''/repos/o/r/branches'' (Obj []) (Obj []),
               Inl err422)],
             Map.empty, []) \<and>
   handle CookieOnly cfg0 False [] scripted (Branches ''o'' ''r'')
       (with_cookie ''gh_token'' ''tok1'') Map.empty []
     = Some (\<lparr>answer = Json 500 (Obj [(''error'', Str ''connect ECONNREFUSED'')]),
              cookie_ops = []\<rparr>,
             [(request_opts cfg0 ''tok1'' ''GET'' ''/repos/o/r/branches'' (Obj []) (Obj []),
               Inl \<lparr>response = None, message = ''connect ECONNREFUSED''\<rparr>)],
             Map.empty, []) \<and>
   handle CookieOnly cfg0 False [] scripted ApiRepos (with_cookie ''gh_token'' ''tok1'')
       Map.empty [Inr (Arr page_a), Inl err422, Inr (Arr page_c)]
     = Some (\<lparr>answer = Json 422 (Obj [(''error'', body422)]), cookie_ops = []\<rparr>,
             [(page_opts cfg0 (token_user ''tok1'') (with_cookie ''gh_token'' ''tok1'') 1,
               Inr (Arr page_a)),
              (page_opts cfg0 (token_user ''tok1'') (with_cookie ''gh_token'' ''tok1'') 2,
               Inl err422)],
             Map.empty, [Inr (Arr page_c)])"
proof -
  let ?opts = "request_opts cfg0 ''tok1'' ''GET'' ''/repos/o/r/branches'' (Obj []) (Obj [])"
  let ?down = "\<lparr>response = None, message = ''connect ECONNREFUSED''\<rparr>"
  let ?req = "with_cookie ''gh_token'' ''tok1''"
  have h1: "handle CookieOnly cfg0 False [] scripted (Branches ''o'' ''r'') ?req Map.empty
              [Inl err422]
     = Some (plain (relay_error err422), [(?opts, Inl err422)], Map.empty, [])"
    by (simp add: branches_sample scripted_def)
  have h2: "handle CookieOnly cfg0 False [] scripted (Branches ''o'' ''r'') ?req Map.empty []
     = Some (plain (relay_error ?down), [(?opts, Inl ?down)], Map.empty, [])"
    by (simp add: branches_sample scripted_def)
  have t: "response err422 = Some (422, body422) \<and> (0::nat) < 422 \<and> truthy body422"
    by (simp add: body422_def err422_def)
  have d: "response ?down = None"
    by simp
  note e1 = upstream_error_relay [where err = err422 and S = 422 and B = body422,
      THEN conjunct2, THEN conjunct2, THEN conjunct2, THEN conjunct1, THEN mp, OF t]
  note e2 = upstream_error_relay [where err = ?down,
      THEN conjunct2, THEN conjunct2, THEN conjunct2, THEN conjunct2, THEN mp, OF d]
  have pages:
    "cookies ?req ''gh_token'' = Some ''tok1'' \<and> ''tok1'' \<noteq> [] \<and>
     serve scripted (map (page_opts cfg0 (token_user ''tok1'') ?req)
        [1..<Suc (Suc (length [page_a]))]) [Inr (Arr page_a), Inl err422, Inr (Arr page_c)]
      = (map (\<lambda>p. Inr (Arr p)) [page_a] @ [Inl err422], [Inr (Arr page_c)]) \<and>
     (\<forall>p\<in>set [page_a]. 100 \<le> length p)"
    by (simp add: upt_rec scripted_def Let_def cookie_sample page_lengths)
  note h3 = upstream_error_relay [where req = ?req and t = "''tok1''" and ax = scripted
      and cfg = cfg0 and full = "[page_a]" and err = err422
      and s = "[Inr (Arr page_a), Inl err422, Inr (Arr page_c)]" and s' = "[Inr (Arr page_c)]"
      and nb = False and L = "[]" and ss = Map.empty,
      THEN conjunct2, THEN conjunct2, THEN conjunct1, THEN mp, OF pages]
  from h1 h2 h3 e1 e2 show ?thesis
    by (simp add: plain_def upt_rec eval_nat_numeral)
qed

text \<open>
  C4 as stated fails on the body: an upstream 422 with the body
  \<^verbatim>\<open>{message: "validation failed"}\<close> is answered with status 422 and the body
  \<^verbatim>\<open>{error: {message: "validation failed"}}\<close>, not with the upstream's body itself.
\<close>

theorem upstream_error_body_counterexample:
  "answer_of (handle CookieOnly cfg0 False [] scripted (Branches ''o'' ''r'')
       (with_cookie ''gh_token'' ''tok1'') Map.empty [Inl err422])
     = Some (Json 422 (Obj [(''error'', Obj [(''message'', Str ''validation failed'')])])) \<and>
   answer_of (handle CookieOnly cfg0 False [] scripted (Branches ''o'' ''r'')
       (with_cookie ''gh_token'' ''tok1'') Map.empty [Inl err422])
     \<noteq> Some (Json 422 (Obj [(''message'', Str ''validation failed'')]))"
  by (simp add: branches_sample scripted_def answer_of_def plain_def relay_error_def err422_def
      body422_def)

subsection \<open>Writing files\<close>

lemma lookup_then_write:
  assumes "ensureAuthenticated v ss req = Inr u"
    and "body_content (body req) = Some c" and "c \<noteq> []"
    and "handle v cfg nb L ax (SpecUpdate owner repo) req ss s = Some (rep, calls, ss', s')"
  shows "length calls = 2 \<and>
         http_method (fst (hd calls)) = ''GET'' \<and>
         snd (hd calls) = fst (ax (fst (hd calls)) s) \<and>
         http_method (fst (last calls)) = ''PUT'' \<and>
         url (fst (last calls)) = url (fst (hd calls)) \<and>
         (\<forall>existing S. snd (hd calls) = Inr existing \<and> get_prop existing ''sha'' = Some S \<and> truthy S
             \<longrightarrow> get_prop (data (fst (last calls))) ''sha'' = Some S) \<and>
         (\<forall>e. snd (hd calls) = Inl e \<longrightarrow> ''sha'' \<notin> set (own_keys (data (fst (last calls)))))"
proof -
  have "run_route v cfg ax (SpecUpdate owner repo) u req s = Some (answer rep, calls, s')"
    using handle_run[OF _ assms(1,4)] by simp
  from spec_update_run[OF assms(2,3) this] have
    shape: "length calls = 2 \<and> http_method (fst (hd calls)) = ''GET'' \<and>
            http_method (fst (last calls)) = ''PUT'' \<and>
            url (fst (last calls)) = url (fst (hd calls)) \<and>
            snd (hd calls) = fst (ax (fst (hd calls)) s)" and
    payload: "data (fst (last calls)) =
       Obj ([(''message'', default_to (Str ''Update spec via API'') (body_message (body req))),
             (''content'', Str (base64 c))]
            @ when_truthy ''branch'' (body_branch (body req))
            @ when_truthy ''sha'' (existing_sha (snd (hd calls))))"
    by blast+
  have found: "get_prop (data (fst (last calls))) ''sha'' = Some S"
    if "snd (hd calls) = Inr existing" "get_prop existing ''sha'' = Some S" "truthy S"
    for existing S
    unfolding payload payload_sha using that by (simp add: existing_sha_def)
  have missing: "''sha'' \<notin> set (own_keys (data (fst (last calls))))"
    if "snd (hd calls) = Inl e" for e
    unfolding payload payload_sha using that by (simp add: existing_sha_def)
  from shape found missing show ?thesis by blast
qed

text \<open>
  C7. On \<^verbatim>\<open>POST /api/repos/:owner/:repo/spec/update\<close> with a non-empty \<open>content\<close>
  the handler makes two calls: a \<^verbatim>\<open>GET\<close> that looks the file up, then a \<^verbatim>\<open>PUT\<close> to
  the same URL. If the lookup resolved with an object whose \<open>sha\<close> is \<open>S\<close> (truthy,
  as every blob sha is), the payload of the \<^verbatim>\<open>PUT\<close> carries \<open>sha = S\<close>; if the lookup
  was rejected, for whatever reason, the payload has no \<open>sha\<close> key and the \<^verbatim>\<open>PUT\<close> is
  made all the same.
\<close>

theorem write_with_lookup:
  assumes "ensureAuthenticated v ss req = Inr u"
    and "body_content (body req) = Some c" and "c \<noteq> []"
  shows "\<exists>rep calls s'.
           handle v cfg nb L ax (SpecUpdate owner repo) req ss s = Some (rep, calls, ss, s') \<and>
           length calls = 2 \<and>
           http_method (fst (hd calls)) = ''GET'' \<and>
           snd (hd calls) = fst (ax (fst (hd calls)) s) \<and>
           http_method (fst (last calls)) = ''PUT'' \<and>
           url (fst (last calls)) = url (fst (hd calls)) \<and>
           (\<forall>existing S. snd (hd calls) = Inr existing \<and> get_prop existing ''sha'' = Some S \<and>
                 truthy S
               \<longrightarrow> get_prop (data (fst (last calls))) ''sha'' = Some S) \<and>
           (\<forall>e. snd (hd calls) = Inl e
               \<longrightarrow> ''sha'' \<notin> set (own_keys (data (fst (last calls)))))"
proof -
  from handle_some [where r = "SpecUpdate owner repo" and v = v and cfg = cfg and nb = nb
      and L = L and ax = ax and req = req and ss = ss and s = s]
  obtain rep calls ss' s' where
    h: "handle v cfg nb L ax (SpecUpdate owner repo) req ss s = Some (rep, calls, ss', s')"
    by auto
  from handle_run [OF _ assms(1) h] have ss: "ss' = ss" by simp
  from lookup_then_write [OF assms h] h ss show ?thesis by blast
qed

theorem write_with_lookup_witness:
  "handle CookieOnly cfg0 False [] scripted (SpecUpdate ''o'' ''r'') (write_request ''gh_token'' ''tok1'' ''hi'')
       Map.empty [Inr found, Inr (Obj [])]
     = Some (\<lparr>answer = Json 200 (Obj []), cookie_ops = []\<rparr>,
             [(probe_opts, Inr found),
              (put_opts spec_target ''Update spec via API'' ''aGk='' [(''sha'', Str ''abc123'')],
               Inr (Obj []))],
             Map.empty, []) \<and>
   get_prop (data (put_opts spec_target ''Update spec via API'' ''aGk=''
                     [(''sha'', Str ''abc123'')])) ''sha'' = Some (Str ''abc123'') \<and>
   handle CookieOnly cfg0 False [] scripted (SpecUpdate ''o'' ''r'') (write_request ''gh_token'' ''tok1'' ''hi'')
       Map.empty [Inl err404, Inr (Obj [])]
     = Some (\<lparr>answer = Json 200 (Obj []), cookie_ops = []\<rparr>,
             [(probe_opts, Inl err404),
              (put_opts spec_target ''Update spec via API'' ''aGk='' [], Inr (Obj []))],
             Map.empty, []) \<and>
   ''sha'' \<notin> set (own_keys (data (put_opts spec_target ''Update spec via API'' ''aGk='' [])))"
proof -
  let ?req = "write_request ''gh_token'' ''tok1'' ''hi''"
  have auth: "ensureAuthenticated CookieOnly Map.empty ?req = Inr (token_user ''tok1'')"
    by (rule admitted_cookie) (simp_all add: write_request_simps)
  have c: "body_content (body ?req) = Some ''hi''" "''hi'' \<noteq> []"
    by (simp_all add: write_request_simps)
  have sha: "get_prop found ''sha'' = Some (Str ''abc123'')" "truthy (Str ''abc123'')"
    by (simp_all add: found_def)
  have h1: "handle CookieOnly cfg0 False [] scripted (SpecUpdate ''o'' ''r'') ?req
       Map.empty [Inr found, Inr (Obj [])]
     = Some (\<lparr>answer = Json 200 (Obj []), cookie_ops = []\<rparr>,
             [(probe_opts, Inr found),
              (put_opts spec_target ''Update spec via API'' ''aGk='' [(''sha'', Str ''abc123'')],
               Inr (Obj []))],
             Map.empty, [])"
    by (simp add: spec_update_sample existing_sha_def found_def when_truthy_def plain_def)
  have h2: "handle CookieOnly cfg0 False [] scripted (SpecUpdate ''o'' ''r'') ?req
       Map.empty [Inl err404, Inr (Obj [])]
     = Some (\<lparr>answer = Json 200 (Obj []), cookie_ops = []\<rparr>,
             [(probe_opts, Inl err404),
              (put_opts spec_target ''Update spec via API'' ''aGk='' [], Inr (Obj []))],
             Map.empty, [])"
    by (simp add: spec_update_sample existing_sha_def when_truthy_def plain_def)
  from write_with_lookup [OF auth c, where cfg = cfg0 and nb = False and L = "[]"
      and ax = scripted and owner = "''o''" and repo = "''r''"
      and s = "[Inr found, Inr (Obj [])]"] sha
  have a: "get_prop (data (put_opts spec_target ''Update spec via API'' ''aGk=''
                     [(''sha'', Str ''abc123'')])) ''sha'' = Some (Str ''abc123'')"
    by (auto simp: h1)
  from write_with_lookup [OF auth c, where cfg = cfg0 and nb = False and L = "[]"
      and ax = scripted and owner = "''o''" and repo = "''r''"
      and s = "[Inl err404, Inr (Obj [])]"]
  have b: "''sha'' \<notin> set (own_keys (data (put_opts spec_target ''Update spec via API'' ''aGk='' [])))"
    by (auto simp: h2)
  from h1 h2 a b show ?thesis by blast
qed

lemma encoding_of_run:
  assumes "ensureAuthenticated v ss req = Inr u"
    and "handle v cfg nb L ax r req ss s = Some (rep, calls, ss', s')"
  shows "(r = SpecUpdate owner repo \<and> body_content (body req) = Some c \<and> c \<noteq> [] \<longrightarrow>
            length calls = 2 \<and> http_method (fst (last calls)) = ''PUT'' \<and>
            get_prop (data (fst (last calls))) ''content'' = Some (Str (base64 c))) \<and>
         (r = PutContents owner repo path \<and> v = SessionBacked \<longrightarrow>
            length calls = 1 \<and> http_method (fst (last calls)) = ''PUT'' \<and>
            get_prop (data (fst (last calls))) ''content''
              = Some (Str (base64 (case body_content (body req) of None \<Rightarrow> [] | Some c \<Rightarrow> c)))) \<and>
         (r = PutContents owner repo path \<and> v = CookieOnly \<longrightarrow>
            length calls = 1 \<and> http_method (fst (last calls)) = ''PUT'' \<and>
            get_prop (data (fst (last calls))) ''content''
              = Some (Str (case body_content (body req) of None \<Rightarrow> [] | Some c \<Rightarrow> c)))"
proof (intro conjI impI)
  assume a: "r = SpecUpdate owner repo \<and> body_content (body req) = Some c \<and> c \<noteq> []"
  then have run: "run_route v cfg ax (SpecUpdate owner repo) u req s
                    = Some (answer rep, calls, s')"
    using handle_run[OF _ assms] by simp
  from a have c: "body_content (body req) = Some c" "c \<noteq> []" by simp_all
  from spec_update_run[OF c run]
  show "length calls = 2" "http_method (fst (last calls)) = ''PUT''"
    "get_prop (data (fst (last calls))) ''content'' = Some (Str (base64 c))"
    by (simp_all only: payload_sha)
next
  assume a: "r = PutContents owner repo path \<and> v = SessionBacked"
  then have "run_route v cfg ax (PutContents owner repo path) u req s
               = Some (answer rep, calls, s')"
    using handle_run[OF _ assms] by simp
  from put_contents_run[OF this] a
  show "length calls = 1" "http_method (fst (last calls)) = ''PUT''"
    "get_prop (data (fst (last calls))) ''content''
       = Some (Str (base64 (case body_content (body req) of None \<Rightarrow> [] | Some c \<Rightarrow> c)))"
    by (simp_all only: payload_sha variant.case)
next
  assume a: "r = PutContents owner repo path \<and> v = CookieOnly"
  then have "run_route v cfg ax (PutContents owner repo path) u req s
               = Some (answer rep, calls, s')"
    using handle_run[OF _ assms] by simp
  from put_contents_run[OF this] a
  show "length calls = 1" "http_method (fst (last calls)) = ''PUT''"
    "get_prop (data (fst (last calls))) ''content''
       = Some (Str (case body_content (body req) of None \<Rightarrow> [] | Some c \<Rightarrow> c))"
    by (simp_all only: payload_sha variant.case)
qed

text \<open>
  C5, as amended. \<^verbatim>\<open>POST .../spec/update\<close> in both variants and
  \<^verbatim>\<open>PUT .../contents/:path\<close> in the session variant put the base64 encoding of the
  body's \<open>content\<close> into the payload sent upstream; \<^verbatim>\<open>PUT .../contents/:path\<close> in
  the cookie variant forwards \<open>content\<close> as it came. A missing \<open>content\<close> of a
  \<^verbatim>\<open>PUT\<close> counts as the empty string.
\<close>

theorem content_encoding:
  assumes "ensureAuthenticated v ss req = Inr u"
  shows "(body_content (body req) = Some c \<and> c \<noteq> [] \<longrightarrow>
            (\<exists>rep calls s'.
                handle v cfg nb L ax (SpecUpdate owner repo) req ss s
                  = Some (rep, calls, ss, s') \<and>
                length calls = 2 \<and> http_method (fst (last calls)) = ''PUT'' \<and>
                get_prop (data (fst (last calls))) ''content'' = Some (Str (base64 c)))) \<and>
         (\<exists>rep calls s'.
             handle v cfg nb L ax (PutContents owner repo path) req ss s
               = Some (rep, calls, ss, s') \<and>
             length calls = 1 \<and> http_method (fst (last calls)) = ''PUT'' \<and>
             get_prop (data (fst (last calls))) ''content''
               = Some (Str (case v of
                              CookieOnly \<Rightarrow>
                                (case body_content (body req) of None \<Rightarrow> [] | Some x \<Rightarrow> x)
                            | SessionBacked \<Rightarrow>
                                base64 (case body_content (body req) of
                                          None \<Rightarrow> [] | Some x \<Rightarrow> x))))"
proof (intro conjI impI)
  assume c: "body_content (body req) = Some c \<and> c \<noteq> []"
  from handle_some [where r = "SpecUpdate owner repo" and v = v and cfg = cfg and nb = nb
      and L = L and ax = ax and req = req and ss = ss and s = s]
  obtain rep calls ss' s' where
    h: "handle v cfg nb L ax (SpecUpdate owner repo) req ss s = Some (rep, calls, ss', s')"
    by auto
  from handle_run [OF _ assms h] have ss: "ss' = ss" by simp
  from encoding_of_run [OF assms h, where owner = owner and repo = repo and c = c] c h ss
  show "\<exists>rep calls s'.
          handle v cfg nb L ax (SpecUpdate owner repo) req ss s = Some (rep, calls, ss, s') \<and>
          length calls = 2 \<and> http_method (fst (last calls)) = ''PUT'' \<and>
          get_prop (data (fst (last calls))) ''content'' = Some (Str (base64 c))"
    by blast
next
  from handle_some [where r = "PutContents owner repo path" and v = v and cfg = cfg
      and nb = nb and L = L and ax = ax and req = req and ss = ss and s = s]
  obtain rep calls ss' s' where
    h: "handle v cfg nb L ax (PutContents owner repo path) req ss s
          = Some (rep, calls, ss', s')"
    by auto
  from handle_run [OF _ assms h] have ss: "ss' = ss" by simp
  from encoding_of_run [OF assms h, where owner = owner and repo = repo and path = path] h ss
  show "\<exists>rep calls s'.
          handle v cfg nb L ax (PutContents owner repo path) req ss s
            = Some (rep, calls, ss, s') \<and>
          length calls = 1 \<and> http_method (fst (last calls)) = ''PUT'' \<and>
          get_prop (data (fst (last calls))) ''content''
            = Some (Str (case v of
                           CookieOnly \<Rightarrow>
                             (case body_content (body req) of None \<Rightarrow> [] | Some x \<Rightarrow> x)
                         | SessionBacked \<Rightarrow>
                             base64 (case body_content (body req) of
                                       None \<Rightarrow> [] | Some x \<Rightarrow> x)))"
    by (cases v) auto
qed

theorem content_encoding_witness:
  "handle CookieOnly cfg0 False [] scripted (SpecUpdate ''o'' ''r'')
       (write_request ''gh_token'' ''tok1'' ''hi'') Map.empty [Inl err404, Inr (Obj [])]
     = Some (\<lparr>answer = Json 200 (Obj []), cookie_ops = []\<rparr>,
             [(probe_opts, Inl err404),
              (put_opts spec_target ''Update spec via API'' ''aGk='' [], Inr (Obj []))],
             Map.empty, []) \<and>
   base64 ''hi'' = ''aGk='' \<and>
   handle SessionBacked cfg0 False [] scripted (PutContents ''o'' ''r'' ''f.txt'')
       (write_request ''gh.sid'' ''sid1'' ''hi'') signed_in [Inr (Obj [])]
     = Some (\<lparr>answer = Json 200 (Obj []), cookie_ops = []\<rparr>,
             [(put_opts file_target ''Update via API'' ''aGk='' [], Inr (Obj []))],
             signed_in, []) \<and>
   handle CookieOnly cfg0 False [] scripted (PutContents ''o'' ''r'' ''f.txt'')
       (write_request ''gh_token'' ''tok1'' ''hi'') Map.empty [Inr (Obj [])]
     = Some (\<lparr>answer = Json 200 (Obj []), cookie_ops = []\<rparr>,
             [(put_opts file_target ''Update via API'' ''hi'' [], Inr (Obj []))],
             Map.empty, []) \<and>
   get_prop (data (put_opts spec_target ''Update spec via API'' ''aGk='' [])) ''content''
     = Some (Str (base64 ''hi'')) \<and>
   get_prop (data (put_opts file_target ''Update via API'' ''aGk='' [])) ''content''
     = Some (Str (base64 ''hi'')) \<and>
   get_prop (data (put_opts file_target ''Update via API'' ''hi'' [])) ''content''
     = Some (Str ''hi'')"
proof -
  let ?creq = "write_request ''gh_token'' ''tok1'' ''hi''"
  let ?sreq = "write_request ''gh.sid'' ''sid1'' ''hi''"
  have cauth: "ensureAuthenticated CookieOnly Map.empty ?creq = Inr (token_user ''tok1'')"
    by (rule admitted_cookie) (simp_all add: write_request_simps)
  have sauth: "ensureAuthenticated SessionBacked signed_in ?sreq
                 = Inr (serializeUser (alice\<lparr>token := Some ''tok1''\<rparr>))"
    by (rule admitted_session [OF signed_in_write signed_in_user(2)])
  have c: "body_content (body ?creq) = Some ''hi''" "body_content (body ?sreq) = Some ''hi''"
    by (simp_all add: write_request_simps)
  have h1: "handle CookieOnly cfg0 False [] scripted (SpecUpdate ''o'' ''r'') ?creq
       Map.empty [Inl err404, Inr (Obj [])]
     = Some (\<lparr>answer = Json 200 (Obj []), cookie_ops = []\<rparr>,
             [(probe_opts, Inl err404),
              (put_opts spec_target ''Update spec via API'' ''aGk='' [], Inr (Obj []))],
             Map.empty, [])"
    by (simp add: spec_update_sample existing_sha_def when_truthy_def plain_def)
  have h2: "handle SessionBacked cfg0 False [] scripted (PutContents ''o'' ''r'' ''f.txt'')
       ?sreq signed_in [Inr (Obj [])]
     = Some (\<lparr>answer = Json 200 (Obj []), cookie_ops = []\<rparr>,
             [(put_opts file_target ''Update via API'' ''aGk='' [], Inr (Obj []))],
             signed_in, [])"
    by (simp add: put_sample_session base64_hi)
  note h3 = put_sample_cookie [of "''hi''"]
  from content_encoding [OF cauth, where cfg = cfg0 and nb = False and L = "[]"
      and ax = scripted and owner = "''o''" and repo = "''r''" and c = "''hi''"
      and s = "[Inl err404, Inr (Obj [])]"] c
  have a: "get_prop (data (put_opts spec_target ''Update spec via API'' ''aGk='' [])) ''content''
     = Some (Str (base64 ''hi''))"
    by (auto simp: h1)
  from content_encoding [OF sauth, where cfg = cfg0 and nb = False and L = "[]"
      and ax = scripted and owner = "''o''" and repo = "''r''" and path = "''f.txt''"
      and s = "[Inr (Obj [])]"] c
  have b: "get_prop (data (put_opts file_target ''Update via API'' ''aGk='' [])) ''content''
     = Some (Str (base64 ''hi''))"
    by (auto simp: h2)
  from content_encoding [OF cauth, where cfg = cfg0 and nb = False and L = "[]"
      and ax = scripted and owner = "''o''" and repo = "''r''" and path = "''f.txt''"
      and s = "[Inr (Obj [])]"] c
  have d: "get_prop (data (put_opts file_target ''Update via API'' ''hi'' [])) ''content''
     = Some (Str ''hi'')"
    by (auto simp: h3)
  from h1 h2 h3 a b d base64_hi(1) show ?thesis by blast
qed

text \<open>
  C5 as stated fails for the cookie variant's \<^verbatim>\<open>PUT\<close>: the content \<^verbatim>\<open>hi\<close> is sent
  upstream as \<^verbatim>\<open>hi\<close>, and its base64 encoding is \<^verbatim>\<open>aGk=\<close>.
\<close>

theorem content_encoding_counterexample:
  "calls_of (handle CookieOnly cfg0 False [] scripted (PutContents ''o'' ''r'' ''f.txt'')
       (write_request ''gh_token'' ''tok1'' ''hi'') Map.empty [Inr (Obj [])])
     = Some [(put_opts file_target ''Update via API'' ''hi'' [], Inr (Obj []))] \<and>
   get_prop (data (put_opts file_target ''Update via API'' ''hi'' [])) ''content''
     = Some (Str ''hi'') \<and>
   Str ''hi'' \<noteq> Str (base64 ''hi'')"
  by (simp add: put_sample_cookie calls_of_def put_opts_content base64_hi)

lemma validation_of_run:
  assumes "ensureAuthenticated v ss req = Inr u"
    and "handle v cfg nb L ax r req ss s = Some (rep, calls, ss', s')"
  shows "(r = SpecUpdate owner repo \<and> \<not> truthy_str (body_content (body req)) \<longrightarrow>
            rep = \<lparr>answer = Json 400 (Obj [(''error'', Str ''content is required'')]),
                   cookie_ops = []\<rparr> \<and>
            calls = [] \<and> s' = s) \<and>
         (r = PutContents owner repo path \<and> body_content (body req) = None \<longrightarrow>
            length calls = 1 \<and> http_method (fst (last calls)) = ''PUT'' \<and>
            get_prop (data (fst (last calls))) ''content'' = Some (Str []) \<and>
            (\<forall>e. snd (last calls) = Inl e \<longrightarrow> answer rep = relay_error e) \<and>
            (\<forall>d. snd (last calls) = Inr d \<and> \<not> truthy (body_push (body req))
                 \<longrightarrow> answer rep = Json 200 d))"
proof (intro conjI impI)
  assume a: "r = SpecUpdate owner repo \<and> \<not> truthy_str (body_content (body req))"
  then have run: "run_route v cfg ax (SpecUpdate owner repo) u req s
                    = Some (answer rep, calls, s')"
    and rep: "rep = plain (answer rep)"
    using handle_run[OF _ assms] by simp_all
  from run a have "answer rep = Json 400 (Obj [(''error'', Str ''content is required'')])
      \<and> calls = [] \<and> s' = s"
    by (auto simp: run_route_def spec_update_def Let_def truthy_str_def
        split: option.splits if_splits)
  with rep show "rep = \<lparr>answer = Json 400 (Obj [(''error'', Str ''content is required'')]),
                   cookie_ops = []\<rparr>" "calls = []" "s' = s"
    by (simp_all add: plain_def)
next
  assume a: "r = PutContents owner repo path \<and> body_content (body req) = None"
  then have "run_route v cfg ax (PutContents owner repo path) u req s
               = Some (answer rep, calls, s')"
    using handle_run[OF _ assms] by simp
  from put_contents_run[OF this] a
  show "length calls = 1" "http_method (fst (last calls)) = ''PUT''"
    "get_prop (data (fst (last calls))) ''content'' = Some (Str [])"
    "\<forall>e. snd (last calls) = Inl e \<longrightarrow> answer rep = relay_error e"
    "\<forall>d. snd (last calls) = Inr d \<and> \<not> truthy (body_push (body req))
         \<longrightarrow> answer rep = Json 200 d"
    by (simp_all add: payload_sha base64_hi split: variant.splits)
qed

text \<open>
  C9, as amended. \<^verbatim>\<open>POST .../spec/update\<close> with a missing or empty \<open>content\<close> is
  answered with status 400 and \<^verbatim>\<open>{error: "content is required"}\<close>, and no upstream
  call is made. \<^verbatim>\<open>PUT .../contents/:path\<close> does not validate: with \<open>content\<close>
  missing it makes one upstream \<^verbatim>\<open>PUT\<close> whose payload has the empty string as
  content, and relays what the upstream answers.
\<close>

theorem content_validation:
  assumes "ensureAuthenticated v ss req = Inr u"
  shows "(\<not> truthy_str (body_content (body req)) \<longrightarrow>
            handle v cfg nb L ax (SpecUpdate owner repo) req ss s =
              Some (\<lparr>answer = Json 400 (Obj [(''error'', Str ''content is required'')]),
                     cookie_ops = []\<rparr>, [], ss, s)) \<and>
         (body_content (body req) = None \<longrightarrow>
            (\<exists>rep calls s'.
                handle v cfg nb L ax (PutContents owner repo path) req ss s
                  = Some (rep, calls, ss, s') \<and>
                length calls = 1 \<and> http_method (fst (last calls)) = ''PUT'' \<and>
                get_prop (data (fst (last calls))) ''content'' = Some (Str []) \<and>
                (\<forall>e. snd (last calls) = Inl e \<longrightarrow> answer rep = relay_error e) \<and>
                (\<forall>d. snd (last calls) = Inr d \<and> \<not> truthy (body_push (body req))
                     \<longrightarrow> answer rep = Json 200 d)))"
proof (intro conjI impI)
  assume c: "\<not> truthy_str (body_content (body req))"
  from handle_some [where r = "SpecUpdate owner repo" and v = v and cfg = cfg and nb = nb
      and L = L and ax = ax and req = req and ss = ss and s = s]
  obtain rep calls ss' s' where
    h: "handle v cfg nb L ax (SpecUpdate owner repo) req ss s = Some (rep, calls, ss', s')"
    by auto
  from handle_run [OF _ assms h] have ss: "ss' = ss" by simp
  from validation_of_run [OF assms h, where owner = owner and repo = repo] c h ss
  show "handle v cfg nb L ax (SpecUpdate owner repo) req ss s =
          Some (\<lparr>answer = Json 400 (Obj [(''error'', Str ''content is required'')]),
                 cookie_ops = []\<rparr>, [], ss, s)"
    by simp
next
  assume c: "body_content (body req) = None"
  from handle_some [where r = "PutContents owner repo path" and v = v and cfg = cfg
      and nb = nb and L = L and ax = ax and req = req and ss = ss and s = s]
  obtain rep calls ss' s' where
    h: "handle v cfg nb L ax (PutContents owner repo path) req ss s
          = Some (rep, calls, ss', s')"
    by auto
  from handle_run [OF _ assms h] have ss: "ss' = ss" by simp
  from validation_of_run [OF assms h, where owner = owner and repo = repo and path = path]
    c h ss
  show "\<exists>rep calls s'.
          handle v cfg nb L ax (PutContents owner repo path) req ss s
            = Some (rep, calls, ss, s') \<and>
          length calls = 1 \<and> http_method (fst (last calls)) = ''PUT'' \<and>
          get_prop (data (fst (last calls))) ''content'' = Some (Str []) \<and>
          (\<forall>e. snd (last calls) = Inl e \<longrightarrow> answer rep = relay_error e) \<and>
          (\<forall>d. snd (last calls) = Inr d \<and> \<not> truthy (body_push (body req))
               \<longrightarrow> answer rep = Json 200 d)"
    by blast
qed

theorem content_validation_witness:
  "handle CookieOnly cfg0 False [] scripted (SpecUpdate ''o'' ''r'')
       (with_cookie ''gh_token'' ''tok1'') Map.empty [Inr (Obj [])]
     = Some (\<lparr>answer = Json 400 (Obj [(''error'', Str ''content is required'')]),
              cookie_ops = []\<rparr>, [], Map.empty, [Inr (Obj [])]) \<and>
   handle CookieOnly cfg0 False [] scripted (PutContents ''o'' ''r'' ''f.txt'')
       (with_cookie ''gh_token'' ''tok1'') Map.empty [Inr (Obj [])]
     = Some (\<lparr>answer = Json 200 (Obj []), cookie_ops = []\<rparr>,
             [(put_opts file_target ''Update via API'' [] [], Inr (Obj []))], Map.empty, []) \<and>
   get_prop (data (put_opts file_target ''Update via API'' [] [])) ''content'' = Some (Str [])"
proof -
  let ?req = "with_cookie ''gh_token'' ''tok1''"
  have auth: "ensureAuthenticated CookieOnly Map.empty ?req = Inr (token_user ''tok1'')"
    by (rule admitted_cookie) (simp_all add: cookie_sample)
  have none: "body_content (body ?req) = None" "\<not> truthy_str (body_content (body ?req))"
    by (simp_all add: no_body_simps truthy_str_def)
  from content_validation [OF auth, where cfg = cfg0 and nb = False and L = "[]"
      and ax = scripted and owner = "''o''" and repo = "''r''" and s = "[Inr (Obj [])]"] none
  have a: "handle CookieOnly cfg0 False [] scripted (SpecUpdate ''o'' ''r'') ?req Map.empty
             [Inr (Obj [])]
     = Some (\<lparr>answer = Json 400 (Obj [(''error'', Str ''content is required'')]),
              cookie_ops = []\<rparr>, [], Map.empty, [Inr (Obj [])])"
    by blast
  note h2 = put_sample_empty
  from content_validation [OF auth, where cfg = cfg0 and nb = False and L = "[]"
      and ax = scripted and owner = "''o''" and repo = "''r''" and path = "''f.txt''"
      and s = "[Inr (Obj [])]"] none
  have b: "get_prop (data (put_opts file_target ''Update via API'' [] [])) ''content''
             = Some (Str [])"
    by (auto simp: h2)
  from a h2 b show ?thesis by blast
qed

text \<open>
  C9 as stated fails for \<^verbatim>\<open>PUT .../contents/:path\<close>: a body without \<open>content\<close>
  leads to one upstream call and, when the upstream accepts it, to status 200.
\<close>

theorem content_validation_counterexample:
  "handle CookieOnly cfg0 False [] scripted (PutContents ''o'' ''r'' ''f.txt'')
       (with_cookie ''gh_token'' ''tok1'') Map.empty [Inr (Obj [])]
     = Some (\<lparr>answer = Json 200 (Obj []), cookie_ops = []\<rparr>,
             [(put_opts file_target ''Update via API'' [] [], Inr (Obj []))], Map.empty, []) \<and>
   body_content (body (with_cookie ''gh_token'' ''tok1'')) = None"
  by (simp add: put_sample_empty no_body_simps)

subsection \<open>Logout\<close>

text \<open>
  C6, as amended. \<^verbatim>\<open>POST /logout\<close> answers with the instruction to clear the
  \<^verbatim>\<open>gh_token\<close> cookie and makes no upstream call. In the cookie variant it leaves the
  server as it was: in the state after the logout a protected-route request without
  the cookie is rejected with the Unauthorized envelope, and one that still presents
  a non-empty \<^verbatim>\<open>gh_token\<close>, the old value included, runs its handler with that
  token. In the session variant, when passport's \<^verbatim>\<open>req.logout()\<close> returns without a
  callback, the session of the request is removed from the store, and in the state
  after the logout every protected-route request presenting that session id is
  rejected with the Unauthorized envelope.
\<close>

theorem logout_effect:
  "handle CookieOnly cfg nb L ax Logout req ss s =
     Some (\<lparr>answer = Json 200 (Obj [(''message'', Str ''Logged out'')]),
            cookie_ops = [ClearCookie ''gh_token'']\<rparr>, [], ss, s) \<and>
   (protected r \<and> cookies req' ''gh_token'' = None \<longrightarrow>
      handle CookieOnly cfg nb L ax r req' ss s =
        Some (\<lparr>answer = Json 401
                  (Obj [(''error'', Str ''Unauthorized. Please log in via /auth/github'')]),
               cookie_ops = []\<rparr>, [], ss, s)) \<and>
   (protected r \<and> cookies req' ''gh_token'' = Some t \<and> t \<noteq> [] \<longrightarrow>
      handle CookieOnly cfg nb L ax r req' ss s =
        map_option (\<lambda>(a, calls, s''). (plain a, calls, ss, s''))
          (run_route CookieOnly cfg ax r (token_user t) req' s)) \<and>
   (cookies req ''gh.sid'' = Some sid \<longrightarrow>
      handle SessionBacked cfg False L ax Logout req ss s =
        Some (\<lparr>answer = Json 200 (Obj [(''ok'', Bool True)]),
               cookie_ops = [ClearCookie ''gh_token'']\<rparr>, [], ss(sid := None), s) \<and>
      (protected r \<and> cookies req' ''gh.sid'' = Some sid \<longrightarrow>
         handle SessionBacked cfg nb L ax r req' (ss(sid := None)) s =
           Some (\<lparr>answer = Json 401
                     (Obj [(''error'', Str ''Unauthorized. Please log in via /auth/github'')]),
                  cookie_ops = []\<rparr>, [], ss(sid := None), s)))"
proof (intro conjI impI)
  show "handle CookieOnly cfg nb L ax Logout req ss s =
     Some (\<lparr>answer = Json 200 (Obj [(''message'', Str ''Logged out'')]),
            cookie_ops = [ClearCookie ''gh_token'']\<rparr>, [], ss, s)"
    by (simp add: handle_def logout_def)
next
  assume "protected r \<and> cookies req' ''gh_token'' = None"
  then show "handle CookieOnly cfg nb L ax r req' ss s =
        Some (\<lparr>answer = Json 401
                  (Obj [(''error'', Str ''Unauthorized. Please log in via /auth/github'')]),
               cookie_ops = []\<rparr>, [], ss, s)"
    by (cases r)
       (auto simp: handle_def ensureAuthenticated_def ensureAuthenticated_cookie_def
          unauthorized_def plain_def)
next
  assume "protected r \<and> cookies req' ''gh_token'' = Some t \<and> t \<noteq> []"
  then show "handle CookieOnly cfg nb L ax r req' ss s =
        map_option (\<lambda>(a, calls, s''). (plain a, calls, ss, s''))
          (run_route CookieOnly cfg ax r (token_user t) req' s)"
    by (auto simp: handle_protected admitted_cookie)
next
  assume "cookies req ''gh.sid'' = Some sid"
  then show "handle SessionBacked cfg False L ax Logout req ss s =
        Some (\<lparr>answer = Json 200 (Obj [(''ok'', Bool True)]),
               cookie_ops = [ClearCookie ''gh_token'']\<rparr>, [], ss(sid := None), s)"
    by (simp add: handle_def logout_def)
next
  assume "protected r \<and> cookies req' ''gh.sid'' = Some sid"
  then show "handle SessionBacked cfg nb L ax r req' (ss(sid := None)) s =
           Some (\<lparr>answer = Json 401
                     (Obj [(''error'', Str ''Unauthorized. Please log in via /auth/github'')]),
                  cookie_ops = []\<rparr>, [], ss(sid := None), s)"
    by (cases r)
       (auto simp: handle_def ensureAuthenticated_def ensureAuthenticated_session_def
          session_user_def unauthorized_def plain_def)
qed

theorem logout_effect_witness:
  "handle SessionBacked cfg0 False [] scripted Logout (with_cookie ''gh.sid'' ''sid1'')
       signed_in [Inr (Arr [])]
     = Some (\<lparr>answer = Json 200 (Obj [(''ok'', Bool True)]),
              cookie_ops = [ClearCookie ''gh_token'']\<rparr>, [], signed_in(''sid1'' := None),
             [Inr (Arr [])]) \<and>
   handle SessionBacked cfg0 False [] scripted (Branches ''o'' ''r'')
       (with_cookie ''gh.sid'' ''sid1'') (signed_in(''sid1'' := None)) [Inr (Arr [])]
     = Some (\<lparr>answer = Json 401
                 (Obj [(''error'', Str ''Unauthorized. Please log in via /auth/github'')]),
              cookie_ops = []\<rparr>, [], signed_in(''sid1'' := None), [Inr (Arr [])]) \<and>
   handle CookieOnly cfg0 False [] scripted Logout (with_cookie ''gh_token'' ''tok1'')
       Map.empty [Inr (Arr [])]
     = Some (\<lparr>answer = Json 200 (Obj [(''message'', Str ''Logged out'')]),
              cookie_ops = [ClearCookie ''gh_token'']\<rparr>, [], Map.empty, [Inr (Arr [])]) \<and>
   handle CookieOnly cfg0 False [] scripted (Branches ''o'' ''r'') anonymous
       Map.empty [Inr (Arr [])]
     = Some (\<lparr>answer = Json 401
                 (Obj [(''error'', Str ''Unauthorized. Please log in via /auth/github'')]),
              cookie_ops = []\<rparr>, [], Map.empty, [Inr (Arr [])])"
proof -
  have k: "cookies (with_cookie ''gh.sid'' ''sid1'') ''gh.sid'' = Some ''sid1''"
    "protected (Branches ''o'' ''r'') \<and> cookies anonymous ''gh_token'' = None"
    "protected (Branches ''o'' ''r'') \<and>
     cookies (with_cookie ''gh.sid'' ''sid1'') ''gh.sid'' = Some ''sid1''"
    by (simp_all add: cookie_sample anonymous_def)
  note session = logout_effect [where req = "with_cookie ''gh.sid'' ''sid1''"
      and req' = "with_cookie ''gh.sid'' ''sid1''" and sid = "''sid1''"
      and r = "Branches ''o'' ''r''" and cfg = cfg0 and L = "[]" and ax = scripted
      and ss = signed_in and s = "[Inr (Arr [])]" and nb = False,
      THEN conjunct2, THEN conjunct2, THEN conjunct2, THEN mp, OF k(1)]
  note cookie = logout_effect [where req = "with_cookie ''gh_token'' ''tok1''"
      and req' = anonymous and r = "Branches ''o'' ''r''" and cfg = cfg0 and L = "[]"
      and ax = scripted and ss = Map.empty and s = "[Inr (Arr [])]" and nb = False]
  from session [THEN conjunct1] session [THEN conjunct2, THEN mp, OF k(3)]
    cookie [THEN conjunct1] cookie [THEN conjunct2, THEN conjunct1, THEN mp, OF k(2)]
  show ?thesis by blast
qed

text \<open>
  C6 as stated fails in the cookie variant: after the logout, the request that
  presents the old cookie value is served (here with status 200) and the token is
  used upstream.
\<close>

theorem logout_cookie_counterexample:
  "handle CookieOnly cfg0 False [] scripted Logout (with_cookie ''gh_token'' ''tok1'')
       Map.empty [Inr (Arr [])]
     = Some (\<lparr>answer = Json 200 (Obj [(''message'', Str ''Logged out'')]),
              cookie_ops = [ClearCookie ''gh_token'']\<rparr>, [], Map.empty, [Inr (Arr [])]) \<and>
   handle CookieOnly cfg0 False [] scripted (Branches ''o'' ''r'')
       (with_cookie ''gh_token'' ''tok1'') Map.empty [Inr (Arr [])]
     = Some (\<lparr>answer = Json 200 (Arr []), cookie_ops = []\<rparr>,
             [(request_opts cfg0 ''tok1'' ''GET'' ''/repos/o/r/branches'' (Obj []) (Obj []),
               Inr (Arr []))],
             Map.empty, [])"
proof (intro conjI)
  show "handle CookieOnly cfg0 False [] scripted Logout (with_cookie ''gh_token'' ''tok1'')
       Map.empty [Inr (Arr [])]
     = Some (\<lparr>answer = Json 200 (Obj [(''message'', Str ''Logged out'')]),
              cookie_ops = [ClearCookie ''gh_token'']\<rparr>, [], Map.empty, [Inr (Arr [])])"
    by (simp add: handle_def logout_def)
  show "handle CookieOnly cfg0 False [] scripted (Branches ''o'' ''r'')
       (with_cookie ''gh_token'' ''tok1'') Map.empty [Inr (Arr [])]
     = Some (\<lparr>answer = Json 200 (Arr []), cookie_ops = []\<rparr>,
             [(request_opts cfg0 ''tok1'' ''GET'' ''/repos/o/r/branches'' (Obj []) (Obj []),
               Inr (Arr []))],
             Map.empty, [])"
    by (simp add: branches_sample scripted_def plain_def)
qed

end
